theory Spec2Isabelle
  imports Complex_Main "HOL-Library.AList"
begin

section \<open>Conventions\<close>

text \<open>
  Python floats are modelled as \<^typ>\<open>real\<close>: rounding, infinities and NaN are outside
  the model. A Python \<^verbatim>\<open>dict\<close> is an association list in insertion order, read with
  \<^const>\<open>map_of\<close> and written with \<^const>\<open>AList.update\<close> (which overwrites in place
  or appends, as a dict does). A NumPy array is a list. Every \<^verbatim>\<open>raise\<close> of the source,
  and every exception raised by an operation the source calls, is a value of
  \<open>py_error\<close>; a function that can raise returns \<open>py_error + 'a\<close>.
\<close>

datatype py_error =
  KeyError string
| ValueError
| IndexError
| AttributeError
| TypeError
| ZeroDivisionError
| OverflowError

definition bind_err :: "py_error + 'a \<Rightarrow> ('a \<Rightarrow> py_error + 'b) \<Rightarrow> py_error + 'b" where
  "bind_err m f = (case m of Inl e \<Rightarrow> Inl e | Inr x \<Rightarrow> f x)"

text \<open>\<^verbatim>\<open>np.clip(x, lo, hi)\<close> is \<^verbatim>\<open>minimum(hi, maximum(x, lo))\<close>.\<close>

definition np_clip :: "real \<Rightarrow> real \<Rightarrow> real \<Rightarrow> real" where
  "np_clip x lo hi = min hi (max x lo)"

text \<open>\<^verbatim>\<open>np.linspace(start, stop, num)\<close>; a negative \<^verbatim>\<open>num\<close> raises ValueError.\<close>

definition np_linspace :: "real \<Rightarrow> real \<Rightarrow> int \<Rightarrow> py_error + real list" where
  "np_linspace start stop num =
     (if num < 0 then Inl ValueError
      else if num = 1 then Inr [start]
      else Inr (map (\<lambda>i. start + real i * ((stop - start) / real (nat num - 1))) [0..<nat num]))"

text \<open>\<^verbatim>\<open>argmin\<close> and \<^verbatim>\<open>argmax\<close> return the first index of an extremum and raise
  ValueError on an empty sequence.\<close>

fun argmin_from :: "real list \<Rightarrow> nat \<Rightarrow> real \<Rightarrow> nat \<Rightarrow> nat" where
  "argmin_from [] i best bi = bi"
| "argmin_from (x # xs) i best bi =
     (if x < best then argmin_from xs (Suc i) x i else argmin_from xs (Suc i) best bi)"

definition np_argmin :: "real list \<Rightarrow> py_error + nat" where
  "np_argmin xs = (case xs of [] \<Rightarrow> Inl ValueError | x # rest \<Rightarrow> Inr (argmin_from rest 1 x 0))"

fun argmax_from :: "real list \<Rightarrow> nat \<Rightarrow> real \<Rightarrow> nat \<Rightarrow> nat" where
  "argmax_from [] i best bi = bi"
| "argmax_from (x # xs) i best bi =
     (if x > best then argmax_from xs (Suc i) x i else argmax_from xs (Suc i) best bi)"

definition np_argmax :: "real list \<Rightarrow> py_error + nat" where
  "np_argmax xs = (case xs of [] \<Rightarrow> Inl ValueError | x # rest \<Rightarrow> Inr (argmax_from rest 1 x 0))"

text \<open>Indexing a list with a non-negative index; out of range raises IndexError.\<close>

definition py_index :: "'a list \<Rightarrow> nat \<Rightarrow> py_error + 'a" where
  "py_index xs i = (if i < length xs then Inr (xs ! i) else Inl IndexError)"

text \<open>An elementwise binary operation on two arrays of one dimension. Arrays of
  different lengths raise ValueError (broadcasting of a length-1 array is not
  modelled: every array of the program has the length of its variable's universe).\<close>

definition np_elementwise :: "(real \<Rightarrow> real \<Rightarrow> real) \<Rightarrow> real list \<Rightarrow> real list \<Rightarrow> py_error + real list" where
  "np_elementwise f xs ys =
     (if length xs = length ys then Inr (map2 f xs ys) else Inl ValueError)"

section \<open>fuzzy\_centered.py\<close>

subsection \<open>FuzzyVariable\<close>

record FuzzyVariable =
  var_name :: string
  min_val :: real
  max_val :: real
  resolution :: int
  universe :: "real list"
  terms :: "(string \<times> real list) list"

definition FuzzyVariable_init :: "string \<Rightarrow> real \<times> real \<Rightarrow> int \<Rightarrow> py_error + FuzzyVariable" where
  "FuzzyVariable_init nm uni res =
     bind_err (np_linspace (fst uni) (snd uni) res) (\<lambda>u.
       Inr \<lparr>var_name = nm, min_val = fst uni, max_val = snd uni, resolution = res,
            universe = u, terms = []\<rparr>)"

text \<open>\<^verbatim>\<open>_triangular_mf\<close>: the slope up is written on the samples of \<open>[a, b]\<close> when
  \<open>b \<noteq> a\<close>, then the slope down overwrites the samples of \<open>[b, c]\<close> when \<open>c \<noteq> b\<close>,
  then everything is clipped to \<open>[0, 1]\<close>.\<close>

definition triangular_mf :: "real list \<Rightarrow> real list \<Rightarrow> py_error + real list" where
  "triangular_mf uni params =
     (case params of
        [a, b, c] \<Rightarrow>
          Inr (map (\<lambda>u.
                 let m0 = 0;
                     m1 = (if a \<le> u \<and> u \<le> b \<and> b \<noteq> a then (u - a) / (b - a) else m0);
                     m2 = (if b \<le> u \<and> u \<le> c \<and> c \<noteq> b then (c - u) / (c - b) else m1)
                 in np_clip m2 0 1) uni)
      | _ \<Rightarrow> Inl ValueError)"

definition trapezoidal_mf :: "real list \<Rightarrow> real list \<Rightarrow> py_error + real list" where
  "trapezoidal_mf uni params =
     (case params of
        [a, b, c, d] \<Rightarrow>
          Inr (map (\<lambda>u.
                 let m0 = 0;
                     m1 = (if a \<le> u \<and> u \<le> b \<and> b \<noteq> a then (u - a) / (b - a) else m0);
                     m2 = (if b \<le> u \<and> u \<le> c then 1 else m1);
                     m3 = (if c \<le> u \<and> u \<le> d \<and> d \<noteq> c then (d - u) / (d - c) else m2)
                 in np_clip m3 0 1) uni)
      | _ \<Rightarrow> Inl ValueError)"

text \<open>\<^verbatim>\<open>add_term\<close>. The class has no method \<^verbatim>\<open>_gaussian_mf\<close>, so the kind
  \<^verbatim>\<open>"gaussmf"\<close> raises AttributeError; any other kind raises ValueError.\<close>

definition add_term :: "FuzzyVariable \<Rightarrow> string \<Rightarrow> string \<Rightarrow> real list \<Rightarrow> py_error + FuzzyVariable" where
  "add_term v term_name mf_type params =
     bind_err
       (if mf_type = ''trimf'' then triangular_mf (universe v) params
        else if mf_type = ''trapmf'' then trapezoidal_mf (universe v) params
        else if mf_type = ''gaussmf'' then Inl AttributeError
        else Inl ValueError)
       (\<lambda>mf. Inr (v\<lparr>terms := AList.update term_name mf (terms v)\<rparr>))"

fun term_memberships :: "(string \<times> real list) list \<Rightarrow> nat \<Rightarrow> (string \<times> real) list \<Rightarrow> py_error + (string \<times> real) list" where
  "term_memberships [] idx acc = Inr acc"
| "term_memberships ((term_name, mf) # rest) idx acc =
     bind_err (py_index mf idx) (\<lambda>m. term_memberships rest idx (AList.update term_name m acc))"

definition fuzzify :: "FuzzyVariable \<Rightarrow> real \<Rightarrow> py_error + (string \<times> real) list" where
  "fuzzify v crisp_value =
     (let crisp = np_clip crisp_value (min_val v) (max_val v)
      in bind_err (np_argmin (map (\<lambda>u. \<bar>u - crisp\<bar>) (universe v))) (\<lambda>idx.
           term_memberships (terms v) idx []))"

subsection \<open>FuzzyRule and FuzzyInferenceSystem\<close>

record FuzzyRule =
  antecedents :: "(string \<times> string) list"
  consequents :: "(string \<times> string) list"

type_synonym memberships = "(string \<times> (string \<times> real) list) list"

record FuzzyInferenceSystem =
  fis_name :: string
  inputs :: "(string \<times> FuzzyVariable) list"
  outputs :: "(string \<times> FuzzyVariable) list"
  rules :: "FuzzyRule list"
  last_input_memberships :: memberships

definition FuzzyInferenceSystem_init :: "string \<Rightarrow> FuzzyInferenceSystem" where
  "FuzzyInferenceSystem_init nm =
     \<lparr>fis_name = nm, inputs = [], outputs = [], rules = [], last_input_memberships = []\<rparr>"

definition add_input :: "FuzzyInferenceSystem \<Rightarrow> FuzzyVariable \<Rightarrow> FuzzyInferenceSystem" where
  "add_input fis v = fis\<lparr>inputs := AList.update (var_name v) v (inputs fis)\<rparr>"

definition add_output :: "FuzzyInferenceSystem \<Rightarrow> FuzzyVariable \<Rightarrow> FuzzyInferenceSystem" where
  "add_output fis v = fis\<lparr>outputs := AList.update (var_name v) v (outputs fis)\<rparr>"

definition add_rule :: "FuzzyInferenceSystem \<Rightarrow> FuzzyRule \<Rightarrow> FuzzyInferenceSystem" where
  "add_rule fis r = fis\<lparr>rules := rules fis @ [r]\<rparr>"

text \<open>Step 1 of \<^verbatim>\<open>infer\<close>: the loop over \<^verbatim>\<open>input_values.items()\<close>.
  \<^verbatim>\<open>self.inputs[input_name]\<close> raises KeyError for a name that is not registered.\<close>

fun fuzzify_inputs :: "(string \<times> FuzzyVariable) list \<Rightarrow> (string \<times> real) list \<Rightarrow> memberships \<Rightarrow> py_error + memberships" where
  "fuzzify_inputs ins [] acc = Inr acc"
| "fuzzify_inputs ins ((input_name, input_value) # rest) acc =
     (case map_of ins input_name of
        None \<Rightarrow> Inl (KeyError input_name)
      | Some input_var \<Rightarrow>
          bind_err (fuzzify input_var input_value) (\<lambda>m.
            fuzzify_inputs ins rest (AList.update input_name m acc)))"

text \<open>The activation loop of \<^verbatim>\<open>infer\<close> (lines 116-120): a clause whose variable or
  term is not in the fuzzified inputs is passed over and leaves \<^verbatim>\<open>activation\<close> as it
  was; the loop has no \<^verbatim>\<open>else\<close>.\<close>

definition activation_clause :: "memberships \<Rightarrow> string \<times> string \<Rightarrow> real \<Rightarrow> real" where
  "activation_clause fz clause activation =
     (case map_of fz (fst clause) of
        None \<Rightarrow> activation
      | Some ms \<Rightarrow>
          (case map_of ms (snd clause) of
             None \<Rightarrow> activation
           | Some membership \<Rightarrow> min activation membership))"

definition infer_activation :: "memberships \<Rightarrow> FuzzyRule \<Rightarrow> real" where
  "infer_activation fz rule = fold (activation_clause fz) (antecedents rule) 1"

text \<open>The consequent loop of \<^verbatim>\<open>infer\<close> (lines 123-129).\<close>

definition apply_consequent :: "(string \<times> FuzzyVariable) list \<Rightarrow> real \<Rightarrow> string \<times> string \<Rightarrow> (string \<times> real list) list \<Rightarrow> py_error + (string \<times> real list) list" where
  "apply_consequent outs activation clause aggregated =
     (case map_of outs (fst clause) of
        None \<Rightarrow> Inr aggregated
      | Some output_var \<Rightarrow>
          (case map_of (terms output_var) (snd clause) of
             None \<Rightarrow> Inr aggregated
           | Some consequent_mf \<Rightarrow>
               (let implied_mf = map (min activation) consequent_mf
                in case map_of aggregated (fst clause) of
                     None \<Rightarrow> Inl (KeyError (fst clause))
                   | Some old \<Rightarrow>
                       bind_err (np_elementwise max old implied_mf) (\<lambda>new.
                         Inr (AList.update (fst clause) new aggregated)))))"

fun apply_consequents :: "(string \<times> FuzzyVariable) list \<Rightarrow> real \<Rightarrow> (string \<times> string) list \<Rightarrow> (string \<times> real list) list \<Rightarrow> py_error + (string \<times> real list) list" where
  "apply_consequents outs activation [] aggregated = Inr aggregated"
| "apply_consequents outs activation (clause # rest) aggregated =
     bind_err (apply_consequent outs activation clause aggregated)
       (apply_consequents outs activation rest)"

fun apply_rules :: "(string \<times> FuzzyVariable) list \<Rightarrow> memberships \<Rightarrow> FuzzyRule list \<Rightarrow> (string \<times> real list) list \<Rightarrow> py_error + (string \<times> real list) list" where
  "apply_rules outs fz [] aggregated = Inr aggregated"
| "apply_rules outs fz (rule # rest) aggregated =
     bind_err (apply_consequents outs (infer_activation fz rule) (consequents rule) aggregated)
       (apply_rules outs fz rest)"

text \<open>Step 2 starts from an array of zeros for every output (\<^verbatim>\<open>np.zeros_like\<close>).\<close>

definition initial_aggregated :: "(string \<times> FuzzyVariable) list \<Rightarrow> (string \<times> real list) list" where
  "initial_aggregated outs = map (\<lambda>(output_name, v). (output_name, map (\<lambda>_. 0) (universe v))) outs"

text \<open>Step 3: the centroid of one output, or the midpoint of its domain when the
  denominator is zero.\<close>

definition defuzzify_output :: "(string \<times> FuzzyVariable) list \<Rightarrow> string \<times> real list \<Rightarrow> py_error + real" where
  "defuzzify_output outs entry =
     (case map_of outs (fst entry) of
        None \<Rightarrow> Inl (KeyError (fst entry))
      | Some output_var \<Rightarrow>
          bind_err (np_elementwise (*) (universe output_var) (snd entry)) (\<lambda>prod.
            let numerator = sum_list prod;
                denominator = sum_list (snd entry)
            in if denominator \<noteq> 0 then Inr (numerator / denominator)
               else Inr ((min_val output_var + max_val output_var) / 2)))"

fun defuzzify_all :: "(string \<times> FuzzyVariable) list \<Rightarrow> (string \<times> real list) list \<Rightarrow> (string \<times> real) list \<Rightarrow> py_error + (string \<times> real) list" where
  "defuzzify_all outs [] output_values = Inr output_values"
| "defuzzify_all outs (entry # rest) output_values =
     bind_err (defuzzify_output outs entry) (\<lambda>v.
       defuzzify_all outs rest (AList.update (fst entry) v output_values))"

text \<open>The aggregate of step 2, for a fuzzification that succeeded.\<close>

definition infer_aggregated :: "FuzzyInferenceSystem \<Rightarrow> memberships \<Rightarrow> py_error + (string \<times> real list) list" where
  "infer_aggregated fis fz = apply_rules (outputs fis) fz (rules fis) (initial_aggregated (outputs fis))"

text \<open>\<^verbatim>\<open>infer\<close> returns its result (or the exception) together with the object, whose
  \<^verbatim>\<open>last_input_memberships\<close> is replaced as soon as fuzzification has succeeded.\<close>

definition infer :: "FuzzyInferenceSystem \<Rightarrow> (string \<times> real) list \<Rightarrow> (py_error + (string \<times> real) list) \<times> FuzzyInferenceSystem" where
  "infer fis input_values =
     (case fuzzify_inputs (inputs fis) input_values [] of
        Inl e \<Rightarrow> (Inl e, fis)
      | Inr fuzzified_inputs \<Rightarrow>
          (bind_err (infer_aggregated fis fuzzified_inputs) (\<lambda>aggregated.
             defuzzify_all (outputs fis) aggregated []),
           fis\<lparr>last_input_memberships := fuzzified_inputs\<rparr>))"

text \<open>The activation loop of \<^verbatim>\<open>get_active_rules_info\<close> (lines 154-161): here an unknown
  variable or term sets the activation to 0 and leaves the loop.\<close>

fun info_activation :: "memberships \<Rightarrow> (string \<times> string) list \<Rightarrow> real \<Rightarrow> real" where
  "info_activation fz [] activation = activation"
| "info_activation fz (clause # rest) activation =
     (case map_of fz (fst clause) of
        None \<Rightarrow> 0
      | Some ms \<Rightarrow>
          (case map_of ms (snd clause) of
             None \<Rightarrow> 0
           | Some membership \<Rightarrow> info_activation fz rest (min activation membership)))"

fun join_str :: "string \<Rightarrow> string list \<Rightarrow> string" where
  "join_str sep [] = []"
| "join_str sep [s] = s"
| "join_str sep (s # rest) = s @ sep @ join_str sep rest"

text \<open>The rule string; the non-ASCII letter of the source's \<^verbatim>\<open>ENTAO\<close> (A with tilde)
  is written as its two UTF-8 bytes.\<close>

definition rule_str :: "FuzzyRule \<Rightarrow> string" where
  "rule_str rule =
     ''SE '' @ join_str '' E '' (map (\<lambda>(v, t). v @ ''='' @ t) (antecedents rule))
       @ '' ENT'' @ [char_of (195::nat), char_of (131::nat)] @ ''O ''
       @ join_str '' E '' (map (\<lambda>(v, t). v @ ''='' @ t) (consequents rule))"

text \<open>\<^verbatim>\<open>list.sort(key=..., reverse=True)\<close> is stable: equal activations keep their
  order, as the stable \<^const>\<open>sort_key\<close> on the negated key does.\<close>

definition get_active_rules_info :: "FuzzyInferenceSystem \<Rightarrow> (string \<times> real) list" where
  "get_active_rules_info fis =
     sort_key (\<lambda>x. - snd x)
       (concat (map (\<lambda>rule.
          let activation = info_activation (last_input_memberships fis) (antecedents rule) 1
          in if activation > 0 then [(rule_str rule, activation)] else []) (rules fis)))"

section \<open>genetic\_algorithm.py\<close>

type_synonym pose = "real \<times> real \<times> real"

text \<open>A chromosome is a \<^verbatim>\<open>List[int]\<close> that only ever holds 0 and 1: it is built from
  the digits of \<^verbatim>\<open>format(n, 'b')\<close> and from \<^verbatim>\<open>[1 if vs == 1 else 0]\<close>, and changed
  only by \<^verbatim>\<open>1 - bit\<close>. A bit is a \<^typ>\<open>bool\<close>, \<open>True\<close> for 1.\<close>

type_synonym chromosome = "bool list"

record Obstacle =
  obs_x :: real
  obs_y :: real
  obs_width :: real
  obs_height :: real

definition get_bounds :: "Obstacle \<Rightarrow> real \<times> real \<times> real \<times> real" where
  "get_bounds ob = (obs_x ob, obs_y ob, obs_x ob + obs_width ob, obs_y ob + obs_height ob)"

record ParkingSpot =
  spot_x :: real
  spot_y :: real
  spot_length :: real
  spot_width :: real

text \<open>The draws of \<^verbatim>\<open>np.random\<close>, each taking and returning the generator's state.
  Nothing is assumed about the values drawn.\<close>

record 'g np_random =
  rand_uniform :: "real \<Rightarrow> real \<Rightarrow> 'g \<Rightarrow> real \<times> 'g"
  rand_choice :: "int list \<Rightarrow> 'g \<Rightarrow> int \<times> 'g"
  rand_randint :: "int \<Rightarrow> int \<Rightarrow> 'g \<Rightarrow> nat \<times> 'g"
  rand_choice_p :: "nat \<Rightarrow> real list \<Rightarrow> 'g \<Rightarrow> nat \<times> 'g"
  rand_random :: "'g \<Rightarrow> real \<times> 'g"

record GeneticAlgorithm =
  initial_pose :: pose
  final_pose :: pose
  parking_spot :: ParkingSpot
  obstacles :: "Obstacle list"
  vehicle_params :: "(string \<times> real) list"
  population_size :: int
  generations :: int
  crossover_rate :: real
  mutation_rate :: real
  k0_range :: "real \<times> real"
  k1_range :: "real \<times> real"
  precision :: real
  chromosome_length :: nat
  k0_bits :: nat
  k1_bits :: nat
  vs_bits :: nat
  best_fitness_history :: "real list"
  avg_fitness_history :: "real list"
  best_individual_history :: "chromosome list"

text \<open>\<^verbatim>\<open>_calculate_bits\<close>. A zero precision raises ZeroDivisionError; a zero range
  gives \<^verbatim>\<open>log2(0) = -inf\<close>, whose \<^verbatim>\<open>int\<close> raises OverflowError; a negative quotient
  gives NaN, whose \<^verbatim>\<open>int\<close> raises ValueError.\<close>

definition calculate_bits :: "real \<Rightarrow> real \<Rightarrow> real \<Rightarrow> py_error + nat" where
  "calculate_bits min_v max_v prec =
     (let range_size = max_v - min_v
      in if prec = 0 then Inl ZeroDivisionError
         else let num_intervals = range_size / prec
              in if num_intervals = 0 then Inl OverflowError
                 else if num_intervals < 0 then Inl ValueError
                 else Inr (nat (max \<lceil>log 2 num_intervals\<rceil> 8)))"

text \<open>\<^verbatim>\<open>int(x)\<close> of a float truncates towards zero.\<close>

definition py_int :: "real \<Rightarrow> int" where
  "py_int x = (if 0 \<le> x then \<lfloor>x\<rfloor> else \<lceil>x\<rceil>)"

text \<open>\<^verbatim>\<open>format(n, '0{w}b')\<close> for \<open>n \<ge> 0\<close>: the binary digits of \<open>n\<close>, most significant
  first, padded on the left with zeros to width \<open>w\<close>.\<close>

fun bin_digits :: "nat \<Rightarrow> bool list" where
  "bin_digits n = (if n < 2 then [n = 1] else bin_digits (n div 2) @ [n mod 2 = 1])"

declare bin_digits.simps [simp del]

definition format_b :: "nat \<Rightarrow> nat \<Rightarrow> bool list" where
  "format_b n w = replicate (w - length (bin_digits n)) False @ bin_digits n"

text \<open>\<^verbatim>\<open>int(''.join(map(str, binary)), 2)\<close>; the empty string raises ValueError.\<close>

definition from_bin :: "bool list \<Rightarrow> int" where
  "from_bin bs = foldl (\<lambda>acc b. 2 * acc + (if b then 1 else 0)) 0 bs"

definition encode_parameter :: "real \<Rightarrow> real \<Rightarrow> real \<Rightarrow> nat \<Rightarrow> py_error + bool list" where
  "encode_parameter v min_v max_v bits =
     (if max_v - min_v = 0 then Inl ZeroDivisionError
      else let normalized = np_clip ((v - min_v) / (max_v - min_v)) 0 1;
               max_int = (2 ^ bits - 1 :: int);
               int_value = py_int (normalized * real_of_int max_int)
           in Inr (format_b (nat int_value) bits))"

definition decode_parameter :: "bool list \<Rightarrow> real \<Rightarrow> real \<Rightarrow> py_error + real" where
  "decode_parameter binary min_v max_v =
     (if binary = [] then Inl ValueError
      else let int_value = from_bin binary;
               max_int = (2 ^ length binary - 1 :: int);
               normalized = (if max_int > 0 then real_of_int int_value / real_of_int max_int else 0)
           in Inr (min_v + normalized * (max_v - min_v)))"

text \<open>\<^verbatim>\<open>__init__\<close>: the fields are stored and the bit widths derived.\<close>

definition GeneticAlgorithm_init ::
  "pose \<Rightarrow> pose \<Rightarrow> ParkingSpot \<Rightarrow> Obstacle list \<Rightarrow> (string \<times> real) list \<Rightarrow> int \<Rightarrow> int \<Rightarrow>
   real \<Rightarrow> real \<Rightarrow> real \<times> real \<Rightarrow> real \<times> real \<Rightarrow> real \<Rightarrow> py_error + GeneticAlgorithm" where
  "GeneticAlgorithm_init ip fp spot obs vp psize gens cr mr k0r k1r prec =
     bind_err (calculate_bits (fst k0r) (snd k0r) prec) (\<lambda>k0b.
     bind_err (calculate_bits (fst k1r) (snd k1r) prec) (\<lambda>k1b.
       Inr \<lparr>initial_pose = ip, final_pose = fp, parking_spot = spot, obstacles = obs,
            vehicle_params = vp, population_size = psize, generations = gens,
            crossover_rate = cr, mutation_rate = mr, k0_range = k0r, k1_range = k1r,
            precision = prec, chromosome_length = k0b + k1b + 1, k0_bits = k0b,
            k1_bits = k1b, vs_bits = 1, best_fitness_history = [],
            avg_fitness_history = [], best_individual_history = []\<rparr>))"

definition create_individual :: "'g np_random \<Rightarrow> GeneticAlgorithm \<Rightarrow> 'g \<Rightarrow> py_error + chromosome \<times> 'g" where
  "create_individual rng ga g =
     (let d0 = rand_uniform rng (fst (k0_range ga)) (snd (k0_range ga)) g;
          d1 = rand_uniform rng (fst (k1_range ga)) (snd (k1_range ga)) (snd d0);
          dv = rand_choice rng [- 1, 1] (snd d1)
      in bind_err (encode_parameter (fst d0) (fst (k0_range ga)) (snd (k0_range ga)) (k0_bits ga)) (\<lambda>k0_binary.
         bind_err (encode_parameter (fst d1) (fst (k1_range ga)) (snd (k1_range ga)) (k1_bits ga)) (\<lambda>k1_binary.
           Inr (k0_binary @ k1_binary @ [fst dv = 1], snd dv))))"

text \<open>\<^verbatim>\<open>_decode_individual\<close>: three slices; \<^verbatim>\<open>vs_binary[0]\<close> raises IndexError on an
  empty slice.\<close>

definition decode_individual :: "GeneticAlgorithm \<Rightarrow> chromosome \<Rightarrow> py_error + real \<times> real \<times> int" where
  "decode_individual ga c =
     (let k0_binary = take (k0_bits ga) c;
          k1_binary = take (k1_bits ga) (drop (k0_bits ga) c);
          vs_binary = drop (k0_bits ga + k1_bits ga) c
      in bind_err (decode_parameter k0_binary (fst (k0_range ga)) (snd (k0_range ga))) (\<lambda>k0.
         bind_err (decode_parameter k1_binary (fst (k1_range ga)) (snd (k1_range ga))) (\<lambda>k1.
         bind_err (py_index vs_binary 0) (\<lambda>b.
           Inr (k0, k1, if b then 1 else - 1)))))"

text \<open>\<^verbatim>\<open>dict.get(key, default)\<close>.\<close>

definition dict_get :: "(string \<times> 'a) list \<Rightarrow> string \<Rightarrow> 'a \<Rightarrow> 'a" where
  "dict_get d k dflt = (case map_of d k of None \<Rightarrow> dflt | Some v \<Rightarrow> v)"

definition check_collision :: "GeneticAlgorithm \<Rightarrow> pose list \<Rightarrow> bool" where
  "check_collision ga trajectory =
     (let vehicle_length = dict_get (vehicle_params ga) ''length'' 50;
          vehicle_width = dict_get (vehicle_params ga) ''width'' 25;
          detection_radius = max vehicle_length vehicle_width / 2
      in list_ex (\<lambda>(x, y, angle).
           list_ex (\<lambda>obstacle.
             case get_bounds obstacle of (obs_x_min, obs_y_min, obs_x_max, obs_y_max) \<Rightarrow>
               obs_x_min - detection_radius \<le> x \<and> x \<le> obs_x_max + detection_radius \<and>
               obs_y_min - detection_radius \<le> y \<and> y \<le> obs_y_max + detection_radius)
             (obstacles ga))
           trajectory)"

text \<open>The two methods that the subclass replaces are looked up on the object at each
  call: \<^verbatim>\<open>_decode_individual\<close> (replaced by \<^verbatim>\<open>_run_single_phase\<close>) and
  \<^verbatim>\<open>_generate_trajectory\<close> (overridden by \<^verbatim>\<open>GeneticAlgorithmParking\<close>). The functions
  below take them as the arguments \<open>dec\<close> and \<open>gen\<close>. The curve generators themselves
  (Bezier sampling with \<^verbatim>\<open>atan2\<close>, the solved polynomial systems) are not modelled:
  \<open>gen\<close> stands for either, returning the trajectory, its length and its peak steering.\<close>

type_synonym decoder = "chromosome \<Rightarrow> py_error + real \<times> real \<times> int"
type_synonym generator = "GeneticAlgorithm \<Rightarrow> real \<Rightarrow> real \<Rightarrow> int \<Rightarrow> pose list \<times> real \<times> real"

definition evaluate_fitness :: "decoder \<Rightarrow> generator \<Rightarrow> GeneticAlgorithm \<Rightarrow> chromosome \<Rightarrow> py_error + real" where
  "evaluate_fitness dec gen ga c =
     bind_err (dec c) (\<lambda>(k0, k1, vs).
       case gen ga k0 k1 vs of (trajectory, path_length, max_steering) \<Rightarrow>
         let has_collision = check_collision ga trajectory;
             path_length' = (if has_collision then 100 * path_length else path_length);
             fitness = path_length'\<^sup>2 + max_steering\<^sup>2
         in Inr (- fitness))"

text \<open>\<^verbatim>\<open>min(fitness)\<close> raises ValueError on an empty list.\<close>

definition py_min :: "real list \<Rightarrow> py_error + real" where
  "py_min xs = (case xs of [] \<Rightarrow> Inl ValueError | x # rest \<Rightarrow> Inr (fold min rest x))"

text \<open>\<^verbatim>\<open>_roulette_wheel_selection\<close>. \<^verbatim>\<open>np.random.randint(n)\<close> raises ValueError for
  \<open>n \<le> 0\<close>; the division \<^verbatim>\<open>f / total_fitness\<close> of two Python floats raises
  ZeroDivisionError for a zero total; \<^verbatim>\<open>np.random.choice(n, p=...)\<close> raises ValueError
  when \<open>p\<close> has not \<open>n\<close> entries.\<close>

definition roulette_wheel_selection ::
  "'g np_random \<Rightarrow> chromosome list \<Rightarrow> real list \<Rightarrow> 'g \<Rightarrow> py_error + chromosome \<times> 'g" where
  "roulette_wheel_selection rng population fitness g =
     bind_err (py_min fitness) (\<lambda>min_fitness.
       let adjusted_fitness = map (\<lambda>f. f - min_fitness + 1 / 10 ^ 10) fitness;
           total_fitness = sum_list adjusted_fitness
       in if total_fitness < 1 / 10 ^ 10 then
            (if length population = 0 then Inl ValueError
             else let d = rand_randint rng 0 (int (length population)) g
                  in bind_err (py_index population (fst d)) (\<lambda>c. Inr (c, snd d)))
          else if total_fitness = 0 then Inl ZeroDivisionError
          else
            let probabilities = map (\<lambda>f. f / total_fitness) adjusted_fitness
            in if length probabilities \<noteq> length population then Inl ValueError
               else let d = rand_choice_p rng (length population) probabilities g
                    in bind_err (py_index population (fst d)) (\<lambda>c. Inr (c, snd d)))"

text \<open>\<^verbatim>\<open>_crossover\<close>. \<^verbatim>\<open>np.random.randint(1, n)\<close> raises ValueError for \<open>n \<le> 1\<close>.\<close>

definition crossover ::
  "'g np_random \<Rightarrow> GeneticAlgorithm \<Rightarrow> chromosome \<Rightarrow> chromosome \<Rightarrow> 'g \<Rightarrow> py_error + (chromosome \<times> chromosome) \<times> 'g" where
  "crossover rng ga parent1 parent2 g =
     (let r = rand_random rng g
      in if fst r > crossover_rate ga then Inr ((parent1, parent2), snd r)
         else if length parent1 \<le> 1 then Inl ValueError
         else let d = rand_randint rng 1 (int (length parent1)) (snd r);
                  crossover_point = fst d;
                  child1 = take crossover_point parent1 @ drop crossover_point parent2;
                  child2 = take crossover_point parent2 @ drop crossover_point parent1
              in Inr ((child1, child2), snd d))"

text \<open>\<^verbatim>\<open>_mutate\<close>: one draw for each bit, in order.\<close>

fun mutate :: "'g np_random \<Rightarrow> GeneticAlgorithm \<Rightarrow> chromosome \<Rightarrow> 'g \<Rightarrow> chromosome \<times> 'g" where
  "mutate rng ga [] g = ([], g)"
| "mutate rng ga (b # bs) g =
     (let r = rand_random rng g;
          b' = (if fst r < mutation_rate ga then \<not> b else b);
          rest = mutate rng ga bs (snd r)
      in (b' # fst rest, snd rest))"

fun create_population :: "'g np_random \<Rightarrow> GeneticAlgorithm \<Rightarrow> nat \<Rightarrow> 'g \<Rightarrow> py_error + chromosome list \<times> 'g" where
  "create_population rng ga 0 g = Inr ([], g)"
| "create_population rng ga (Suc n) g =
     bind_err (create_individual rng ga g) (\<lambda>d.
     bind_err (create_population rng ga n (snd d)) (\<lambda>r.
       Inr (fst d # fst r, snd r)))"

fun map_err :: "('a \<Rightarrow> py_error + 'b) \<Rightarrow> 'a list \<Rightarrow> py_error + 'b list" where
  "map_err f [] = Inr []"
| "map_err f (x # xs) = bind_err (f x) (\<lambda>y. bind_err (map_err f xs) (\<lambda>ys. Inr (y # ys)))"

text \<open>The loop \<^verbatim>\<open>while len(new_population) < self.population_size\<close> of \<^verbatim>\<open>run\<close>: two
  selections, a crossover and two mutations add two children.\<close>

function fill_population ::
  "'g np_random \<Rightarrow> GeneticAlgorithm \<Rightarrow> chromosome list \<Rightarrow> real list \<Rightarrow> chromosome list \<Rightarrow> 'g \<Rightarrow>
   py_error + chromosome list \<times> 'g" where
  "fill_population rng ga population fitness new_population g =
     (if int (length new_population) < population_size ga then
        (case roulette_wheel_selection rng population fitness g of
           Inl e \<Rightarrow> Inl e
         | Inr s1 \<Rightarrow>
             (case roulette_wheel_selection rng population fitness (snd s1) of
                Inl e \<Rightarrow> Inl e
              | Inr s2 \<Rightarrow>
                  (case crossover rng ga (fst s1) (fst s2) (snd s2) of
                     Inl e \<Rightarrow> Inl e
                   | Inr x \<Rightarrow>
                       fill_population rng ga population fitness
                         (new_population @
                            [fst (mutate rng ga (fst (fst x)) (snd x)),
                             fst (mutate rng ga (snd (fst x))
                                    (snd (mutate rng ga (fst (fst x)) (snd x))))])
                         (snd (mutate rng ga (snd (fst x))
                                 (snd (mutate rng ga (fst (fst x)) (snd x))))))))
      else Inr (new_population, g))"
  by pat_completeness auto
termination
  by (relation "measure (\<lambda>(rng, ga, population, fitness, new_population, g).
        nat (population_size ga - int (length new_population)))") auto

declare fill_population.simps [simp del]

text \<open>The state of the loop over the generations: the local variables of \<^verbatim>\<open>run\<close>, the
  object (whose history lists the loop appends to) and the generator's state.
  \<^verbatim>\<open>float('-inf')\<close>, the first \<^verbatim>\<open>best_fitness\<close>, is \<open>None\<close>.\<close>

record 'g run_state =
  rs_population :: "chromosome list"
  rs_best_individual :: "chromosome option"
  rs_best_fitness :: "real option"
  rs_ga :: GeneticAlgorithm
  rs_rng :: 'g

text \<open>One pass of the loop body (lines 255-290). An exception leaves the loop with the
  state as it is at that point: what was appended to the histories stays appended.\<close>

definition generation_body ::
  "'g np_random \<Rightarrow> decoder \<Rightarrow> generator \<Rightarrow> nat \<Rightarrow> 'g run_state \<Rightarrow> py_error option \<times> 'g run_state" where
  "generation_body rng dec gen generation st =
     (case map_err (evaluate_fitness dec gen (rs_ga st)) (rs_population st) of
        Inl e \<Rightarrow> (Some e, st)
      | Inr fitness \<Rightarrow>
          (case np_argmax fitness of
             Inl e \<Rightarrow> (Some e, st)
           | Inr max_fitness_idx \<Rightarrow>
               (let improved = (case rs_best_fitness st of
                                 None \<Rightarrow> True
                               | Some bf \<Rightarrow> fitness ! max_fitness_idx > bf);
                   best_fitness = (if improved then Some (fitness ! max_fitness_idx)
                                   else rs_best_fitness st);
                   best_individual = (if improved then Some (rs_population st ! max_fitness_idx)
                                      else rs_best_individual st);
                   avg_fitness = sum_list fitness / real (length fitness);
                   ga1 = (rs_ga st)
                     \<lparr>best_fitness_history :=
                        best_fitness_history (rs_ga st) @ [- the best_fitness],
                      avg_fitness_history :=
                        avg_fitness_history (rs_ga st) @ [- avg_fitness]\<rparr>;
                   st1 = st\<lparr>rs_best_individual := best_individual,
                            rs_best_fitness := best_fitness, rs_ga := ga1\<rparr>
               in (case best_individual of
                     None \<Rightarrow> (Some AttributeError, st1)
                   | Some best \<Rightarrow>
                       (let st2 = st1\<lparr>rs_ga := ga1\<lparr>best_individual_history :=
                                    best_individual_history ga1 @ [best]\<rparr>\<rparr>
                        in (case (if (generation + 1) mod 10 = 0 \<or> generation = 0
                                  then dec best else Inr (0, 0, 0)) of
                              Inl e \<Rightarrow> (Some e, st2)
                            | Inr _ \<Rightarrow>
                                (case fill_population rng (rs_ga st2) (rs_population st) fitness
                                        [best] (rs_rng st) of
                                   Inl e \<Rightarrow> (Some e, st2)
                                 | Inr np \<Rightarrow>
                                     (None, st2\<lparr>rs_population :=
                                                 take (nat (population_size (rs_ga st2))) (fst np),
                                               rs_rng := snd np\<rparr>))))))))"

fun run_generations ::
  "'g np_random \<Rightarrow> decoder \<Rightarrow> generator \<Rightarrow> nat list \<Rightarrow> 'g run_state \<Rightarrow> py_error option \<times> 'g run_state" where
  "run_generations rng dec gen [] st = (None, st)"
| "run_generations rng dec gen (generation # rest) st =
     (case generation_body rng dec gen generation st of
        (Some e, st') \<Rightarrow> (Some e, st')
      | (None, st') \<Rightarrow> run_generations rng dec gen rest st')"

record ga_result =
  res_k0 :: real
  res_k1 :: real
  res_vs :: int
  res_path_length :: real
  res_max_steering :: real
  res_objective_value :: real
  res_has_collision :: bool
  res_trajectory :: "pose list"
  res_fitness_history :: "real list"
  res_avg_fitness_history :: "real list"

text \<open>\<^verbatim>\<open>run\<close> returns the result dictionary and the generator's state, or the exception,
  together with the object. After a loop of no generation \<^verbatim>\<open>best_individual\<close> is still
  \<^verbatim>\<open>None\<close> and decoding it raises TypeError.\<close>

definition run ::
  "'g np_random \<Rightarrow> decoder \<Rightarrow> generator \<Rightarrow> GeneticAlgorithm \<Rightarrow> 'g \<Rightarrow>
   (py_error + ga_result \<times> 'g) \<times> GeneticAlgorithm" where
  "run rng dec gen ga g =
     (case create_population rng ga (nat (population_size ga)) g of
        Inl e \<Rightarrow> (Inl e, ga)
      | Inr p \<Rightarrow>
          (case run_generations rng dec gen [0..<nat (generations ga)]
                  \<lparr>rs_population = fst p, rs_best_individual = None, rs_best_fitness = None,
                   rs_ga = ga, rs_rng = snd p\<rparr> of
             (Some e, st) \<Rightarrow> (Inl e, rs_ga st)
           | (None, st) \<Rightarrow>
               (case rs_best_individual st of
                  None \<Rightarrow> (Inl TypeError, rs_ga st)
                | Some best \<Rightarrow>
                    (case dec best of
                       Inl e \<Rightarrow> (Inl e, rs_ga st)
                     | Inr (k0, k1, vs) \<Rightarrow>
                         (case gen (rs_ga st) k0 k1 vs of
                            (trajectory, path_length, max_steering) \<Rightarrow>
                              (Inr (\<lparr>res_k0 = k0, res_k1 = k1, res_vs = vs,
                                     res_path_length = path_length,
                                     res_max_steering = max_steering,
                                     res_objective_value = path_length\<^sup>2 + max_steering\<^sup>2,
                                     res_has_collision = check_collision (rs_ga st) trajectory,
                                     res_trajectory = trajectory,
                                     res_fitness_history = best_fitness_history (rs_ga st),
                                     res_avg_fitness_history = avg_fitness_history (rs_ga st)\<rparr>,
                                    rs_rng st),
                               rs_ga st))))))"

section \<open>parallel\_parking\_ga.py\<close>

text \<open>\<^verbatim>\<open>forced_decode\<close>, the closure that \<^verbatim>\<open>_run_single_phase\<close> installs as the object's
  \<^verbatim>\<open>_decode_individual\<close>.\<close>

definition forced_decode :: "decoder \<Rightarrow> int \<Rightarrow> decoder" where
  "forced_decode original_decode force_direction chromosome =
     bind_err (original_decode chromosome) (\<lambda>(k0, k1, _). Inr (k0, k1, force_direction))"

definition run_single_phase ::
  "'g np_random \<Rightarrow> generator \<Rightarrow> GeneticAlgorithm \<Rightarrow> int option \<Rightarrow> 'g \<Rightarrow>
   (py_error + ga_result \<times> 'g) \<times> GeneticAlgorithm" where
  "run_single_phase rng gen ga force_direction g =
     (let original_decode = decode_individual ga
      in case force_direction of
           None \<Rightarrow> run rng original_decode gen ga g
         | Some fd \<Rightarrow> run rng (forced_decode original_decode fd) gen ga g)"

record combined_result =
  comb_phase1 :: ga_result
  comb_phase2 :: ga_result
  comb_trajectory :: "pose list"
  comb_path_length :: real
  comb_max_steering :: real
  comb_k0_phase1 :: real
  comb_k1_phase1 :: real
  comb_k0_phase2 :: real
  comb_k1_phase2 :: real
  comb_intermediate_point :: "pose option"
  comb_fitness_history :: "real list"
  comb_has_collision :: bool

text \<open>\<^verbatim>\<open>_combine_phases\<close>, on two dictionaries as \<^verbatim>\<open>GeneticAlgorithm.run\<close> returns them
  (every key present).\<close>

definition combine_phases :: "ga_result \<Rightarrow> ga_result \<Rightarrow> combined_result" where
  "combine_phases phase1 phase2 =
     \<lparr>comb_phase1 = phase1,
      comb_phase2 = phase2,
      comb_trajectory = res_trajectory phase1 @ res_trajectory phase2,
      comb_path_length = res_path_length phase1 + res_path_length phase2,
      comb_max_steering = max (res_max_steering phase1) (res_max_steering phase2),
      comb_k0_phase1 = res_k0 phase1,
      comb_k1_phase1 = res_k1 phase1,
      comb_k0_phase2 = res_k0 phase2,
      comb_k1_phase2 = res_k1 phase2,
      comb_intermediate_point =
        (if res_trajectory phase1 \<noteq> [] then Some (last (res_trajectory phase1)) else None),
      comb_fitness_history = res_fitness_history phase1 @ res_fitness_history phase2,
      comb_has_collision = (res_has_collision phase1 \<or> res_has_collision phase2)\<rparr>"

section \<open>hybrid\_system.py\<close>

subsection \<open>TrajectoryTracker\<close>

record TrajectoryTracker =
  tr_trajectory :: "pose list"
  current_index :: nat
  lookahead_distance :: real
  progress :: nat
  last_velocity :: real
  last_steering :: real

definition TrajectoryTracker_init :: "pose list \<Rightarrow> TrajectoryTracker" where
  "TrajectoryTracker_init trajectory =
     \<lparr>tr_trajectory = trajectory, current_index = 0, lookahead_distance = 60,
      progress = 0, last_velocity = 0, last_steering = 0\<rparr>"

text \<open>The search loop of \<^verbatim>\<open>get_reference_point\<close>; \<^verbatim>\<open>float('inf')\<close>, the first
  \<^verbatim>\<open>min_dist\<close>, is \<open>None\<close>. Every index of the window is below the length of the
  trajectory.\<close>

fun closest_search :: "pose list \<Rightarrow> real \<Rightarrow> real \<Rightarrow> nat list \<Rightarrow> real option \<times> nat \<Rightarrow> real option \<times> nat" where
  "closest_search traj vx vy [] acc = acc"
| "closest_search traj vx vy (i # rest) acc =
     (case traj ! i of (x, y, angle) \<Rightarrow>
        let dist = sqrt ((x - vx)\<^sup>2 + (y - vy)\<^sup>2)
        in if (case fst acc of None \<Rightarrow> True | Some min_dist \<Rightarrow> dist < min_dist)
           then closest_search traj vx vy rest (Some dist, i)
           else closest_search traj vx vy rest acc)"

definition get_reference_point :: "TrajectoryTracker \<Rightarrow> real \<Rightarrow> real \<Rightarrow> pose \<times> TrajectoryTracker" where
  "get_reference_point t vehicle_x vehicle_y =
     (if tr_trajectory t = [] then ((vehicle_x, vehicle_y, 0), t)
      else
        let search_start = nat (max 0 (int (progress t) - 10));
            search_end = min (length (tr_trajectory t)) (progress t + 50);
            closest_idx = snd (closest_search (tr_trajectory t) vehicle_x vehicle_y
                                 [search_start..<search_end] (None, progress t));
            base_lookahead = nat (max 5 (py_int (lookahead_distance t / 4)));
            lookahead_idx = min (closest_idx + base_lookahead) (length (tr_trajectory t) - 1)
        in (tr_trajectory t ! lookahead_idx,
            t\<lparr>progress := closest_idx, current_index := lookahead_idx\<rparr>))"

text \<open>The two loops that bring an angle back: \<^verbatim>\<open>while a > 180: a -= 360\<close> and
  \<^verbatim>\<open>while a < -180: a += 360\<close>.\<close>

lemma wrap_above_measure: "180 < (a::real) \<Longrightarrow> nat \<lceil>a - 360\<rceil> < nat \<lceil>a\<rceil>"
proof -
  assume "180 < a"
  then have "0 < \<lceil>a\<rceil>" by linarith
  moreover have "\<lceil>a - 360\<rceil> = \<lceil>a\<rceil> - 360" by simp
  ultimately show ?thesis by linarith
qed

lemma wrap_below_measure: "(a::real) < - 180 \<Longrightarrow> nat \<lceil>- (a + 360)\<rceil> < nat \<lceil>- a\<rceil>"
proof -
  assume "a < - 180"
  then have "0 < \<lceil>- a\<rceil>" by linarith
  moreover have "\<lceil>- (a + 360)\<rceil> = \<lceil>- a\<rceil> - 360"
  proof -
    have "- (a + 360) = - a - 360" by simp
    then show ?thesis by (metis ceiling_diff_numeral)
  qed
  ultimately show ?thesis by linarith
qed

function wrap_above :: "real \<Rightarrow> real" where
  "wrap_above a = (if a > 180 then wrap_above (a - 360) else a)"
  by pat_completeness auto
termination
proof (relation "measure (\<lambda>a. nat \<lceil>a\<rceil>)")
  show "wf (measure (\<lambda>a::real. nat \<lceil>a\<rceil>))" by simp
next
  fix a :: real
  assume "180 < a"
  then show "(a - 360, a) \<in> measure (\<lambda>a. nat \<lceil>a\<rceil>)"
    unfolding in_measure by (rule wrap_above_measure)
qed

function wrap_below :: "real \<Rightarrow> real" where
  "wrap_below a = (if a < - 180 then wrap_below (a + 360) else a)"
  by pat_completeness auto
termination
proof (relation "measure (\<lambda>a. nat \<lceil>- a\<rceil>)")
  show "wf (measure (\<lambda>a::real. nat \<lceil>- a\<rceil>))" by simp
next
  fix a :: real
  assume "a < - 180"
  then show "(a + 360, a) \<in> measure (\<lambda>a. nat \<lceil>- a\<rceil>)"
    unfolding in_measure by (rule wrap_below_measure)
qed

declare wrap_above.simps [simp del]
declare wrap_below.simps [simp del]

record tracking_error =
  position_error :: real
  angle_error :: real
  reference_x :: real
  reference_y :: real
  reference_angle :: real

definition calculate_tracking_error ::
  "TrajectoryTracker \<Rightarrow> real \<Rightarrow> real \<Rightarrow> real \<Rightarrow> tracking_error \<times> TrajectoryTracker" where
  "calculate_tracking_error t vehicle_x vehicle_y vehicle_angle =
     (case get_reference_point t vehicle_x vehicle_y of
        ((x_ref, y_ref, angle_ref), t') \<Rightarrow>
          (\<lparr>position_error = sqrt ((x_ref - vehicle_x)\<^sup>2 + (y_ref - vehicle_y)\<^sup>2),
            angle_error = wrap_below (wrap_above (angle_ref - vehicle_angle)),
            reference_x = x_ref,
            reference_y = y_ref,
            reference_angle = angle_ref\<rparr>, t'))"

subsection \<open>HybridParkingSystem\<close>

text \<open>The fields of \<^verbatim>\<open>Vehicle\<close> (simulation.py) that the controller reads.\<close>

record Vehicle =
  veh_x :: real
  veh_y :: real
  veh_angle :: real
  sensor_front :: real
  sensor_lateral :: real
  sensor_angle :: real
  sensor_depth :: real

record HybridParkingSystem =
  fuzzy_system :: FuzzyInferenceSystem
  hy_initial_pose :: pose
  hy_final_pose :: pose
  hy_parking_spot :: ParkingSpot
  hy_obstacles :: "Obstacle list"
  hy_vehicle_params :: "(string \<times> real) list"
  hy_ga_result :: "ga_result option"
  trajectory_tracker :: "TrajectoryTracker option"
  ga_optimized :: bool

definition HybridParkingSystem_init ::
  "FuzzyInferenceSystem \<Rightarrow> pose \<Rightarrow> pose \<Rightarrow> ParkingSpot \<Rightarrow> Obstacle list \<Rightarrow> (string \<times> real) list \<Rightarrow>
   HybridParkingSystem" where
  "HybridParkingSystem_init fis ip fp spot obs vp =
     \<lparr>fuzzy_system = fis, hy_initial_pose = ip, hy_final_pose = fp, hy_parking_spot = spot,
      hy_obstacles = obs, hy_vehicle_params = vp, hy_ga_result = None,
      trajectory_tracker = None, ga_optimized = False\<rparr>"

text \<open>\<^verbatim>\<open>optimize_trajectory\<close> builds a \<^verbatim>\<open>GeneticAlgorithm\<close> with the default rates, ranges
  and precision, runs it, and stores the result, a new tracker on its trajectory and the
  flag together. An exception of the constructor or of \<^verbatim>\<open>run\<close> leaves the object as it
  was.\<close>

definition optimize_trajectory ::
  "'g np_random \<Rightarrow> generator \<Rightarrow> HybridParkingSystem \<Rightarrow> int \<Rightarrow> int \<Rightarrow> 'g \<Rightarrow>
   (py_error + ga_result \<times> 'g) \<times> HybridParkingSystem" where
  "optimize_trajectory rng gen hs psize gens g =
     (case GeneticAlgorithm_init (hy_initial_pose hs) (hy_final_pose hs) (hy_parking_spot hs)
             (hy_obstacles hs) (hy_vehicle_params hs) psize gens (6 / 10) (4 / 100)
             (- 2, 2) (- 2, 2) (1 / 10 ^ 8) of
        Inl e \<Rightarrow> (Inl e, hs)
      | Inr ga \<Rightarrow>
          (case fst (run rng (decode_individual ga) gen ga g) of
             Inl e \<Rightarrow> (Inl e, hs)
           | Inr r \<Rightarrow>
               (Inr r,
                hs\<lparr>hy_ga_result := Some (fst r),
                   trajectory_tracker := Some (TrajectoryTracker_init (res_trajectory (fst r))),
                   ga_optimized := True\<rparr>)))"

text \<open>\<^verbatim>\<open>math.atan2\<close> and \<^verbatim>\<open>math.degrees\<close> on the reals.\<close>

definition py_atan2 :: "real \<Rightarrow> real \<Rightarrow> real" where
  "py_atan2 y x =
     (if x > 0 then arctan (y / x)
      else if x < 0 \<and> y \<ge> 0 then arctan (y / x) + pi
      else if x < 0 then arctan (y / x) - pi
      else if y > 0 then pi / 2
      else if y < 0 then - pi / 2
      else 0)"

definition py_degrees :: "real \<Rightarrow> real" where
  "py_degrees r = r * 180 / pi"

text \<open>\<^verbatim>\<open>d[key]\<close> raises KeyError for a missing key.\<close>

definition dict_item :: "(string \<times> 'a) list \<Rightarrow> string \<Rightarrow> py_error + 'a" where
  "dict_item d k = (case map_of d k of None \<Rightarrow> Inl (KeyError k) | Some v \<Rightarrow> Inr v)"

text \<open>\<^verbatim>\<open>_calculate_tracking_control\<close>. A missing tracker raises AttributeError before
  anything is changed; a missing \<^verbatim>\<open>ga_result\<close> raises TypeError after the filtered
  steering has been stored.\<close>

definition calculate_tracking_control ::
  "HybridParkingSystem \<Rightarrow> Vehicle \<Rightarrow> (py_error + (string \<times> real) list) \<times> HybridParkingSystem" where
  "calculate_tracking_control hs vehicle =
     (case trajectory_tracker hs of
        None \<Rightarrow> (Inl AttributeError, hs)
      | Some t0 \<Rightarrow>
          (case calculate_tracking_error t0 (veh_x vehicle) (veh_y vehicle) (veh_angle vehicle) of
             (te, t1) \<Rightarrow>
               (let dx = reference_x te - veh_x vehicle;
                   dy = reference_y te - veh_y vehicle;
                   dist_to_ref = sqrt (dx * dx + dy * dy);
                   desired_angle = (if dist_to_ref > 1 / 10 then py_degrees (py_atan2 dy dx)
                                    else reference_angle te);
                   direction_error = wrap_below (wrap_above (desired_angle - veh_angle vehicle));
                   v0 = min 25 (max 8 (dist_to_ref * (1 / 2)));
                   angle_error_abs = \<bar>angle_error te\<bar>;
                   v1 = (if angle_error_abs > 45 then v0 * (4 / 10)
                         else if angle_error_abs > 25 then v0 * (7 / 10)
                         else if angle_error_abs > 10 then v0 * (9 / 10)
                         else v0);
                   v2 = (if dist_to_ref < 15 then v1 * (6 / 10) else v1);
                   kp_direction = 1 / 2;
                   kp_angle = 3 / 10;
                   s0 = np_clip (direction_error * kp_direction + angle_error te * kp_angle) (- 40) 40;
                   alpha = 7 / 10;
                   steering_angle = alpha * last_steering t1 + (1 - alpha) * s0;
                   t2 = t1\<lparr>last_steering := steering_angle\<rparr>
               in (case hy_ga_result hs of
                     None \<Rightarrow> (Inl TypeError, hs\<lparr>trajectory_tracker := Some t2\<rparr>)
                   | Some r \<Rightarrow>
                       (let v3 = (if res_vs r = - 1 then - \<bar>v2\<bar> else v2);
                            alpha_vel = 6 / 10;
                            v4 = alpha_vel * last_velocity t2 + (1 - alpha_vel) * v3;
                            t3 = t2\<lparr>last_velocity := v4\<rparr>;
                            v5 = (if sensor_front vehicle < 25 then v4 * (3 / 10)
                                  else if sensor_front vehicle < 40 then v4 * (6 / 10)
                                  else v4)
                        in (Inr [(''velocidade'', v5), (''angulo_direcao'', steering_angle)],
                            hs\<lparr>trajectory_tracker := Some t3\<rparr>))))))"

definition fuzzy_inputs_of :: "Vehicle \<Rightarrow> (string \<times> real) list" where
  "fuzzy_inputs_of vehicle =
     [(''distancia_frontal'', sensor_front vehicle),
      (''distancia_lateral'', sensor_lateral vehicle),
      (''angulo_veiculo'', sensor_angle vehicle),
      (''profundidade_vaga'', sensor_depth vehicle)]"

text \<open>\<^verbatim>\<open>get_fuzzy_control\<close>. With tracking, the tracking control is computed first, then
  the fuzzy inference, and the two are blended by the band of \<^verbatim>\<open>sensor_front\<close>.\<close>

definition get_fuzzy_control ::
  "HybridParkingSystem \<Rightarrow> Vehicle \<Rightarrow> bool \<Rightarrow> (py_error + (string \<times> real) list) \<times> HybridParkingSystem" where
  "get_fuzzy_control hs vehicle use_tracking =
     (if \<not> ga_optimized hs \<or> \<not> use_tracking then
        (case infer (fuzzy_system hs) (fuzzy_inputs_of vehicle) of
           (fuzzy_outputs, fis') \<Rightarrow> (fuzzy_outputs, hs\<lparr>fuzzy_system := fis'\<rparr>))
      else
        (case calculate_tracking_control hs vehicle of
           (Inl e, hs1) \<Rightarrow> (Inl e, hs1)
         | (Inr tracking_control, hs1) \<Rightarrow>
             (case infer (fuzzy_system hs1) (fuzzy_inputs_of vehicle) of
                (Inl e, fis') \<Rightarrow> (Inl e, hs1\<lparr>fuzzy_system := fis'\<rparr>)
              | (Inr fuzzy_outputs, fis') \<Rightarrow>
                  (bind_err (dict_item fuzzy_outputs ''velocidade'') (\<lambda>fv.
                   bind_err (dict_item tracking_control ''velocidade'') (\<lambda>tv.
                   bind_err (dict_item fuzzy_outputs ''angulo_direcao'') (\<lambda>fs.
                   bind_err (dict_item tracking_control ''angulo_direcao'') (\<lambda>ts.
                     if sensor_front vehicle < 15 then
                       Inr [(''velocidade'', fv * (7 / 10) + tv * (3 / 10)),
                            (''angulo_direcao'', fs * (7 / 10) + ts * (3 / 10))]
                     else if sensor_front vehicle < 30 then
                       Inr [(''velocidade'', tv * (75 / 100) + fv * (25 / 100)),
                            (''angulo_direcao'', ts * (8 / 10) + fs * (2 / 10))]
                     else
                       Inr [(''velocidade'', tv * (95 / 100) + fv * (5 / 100)),
                            (''angulo_direcao'', ts * (9 / 10) + fs * (1 / 10))])))),
                   hs1\<lparr>fuzzy_system := fis'\<rparr>))))"

section \<open>Concrete systems\<close>

text \<open>A system with one output \<open>saida\<close> on \<open>[0, 10]\<close>, sampled at 0, 5 and 10, whose term
  \<open>alto\<close> is \<^verbatim>\<open>trimf [0, 10, 10]\<close>, and one rule whose only antecedent names a
  variable \<open>fantasma\<close> that is not an input of the system.\<close>

definition saida_var :: FuzzyVariable where
  "saida_var = \<lparr>var_name = ''saida'', min_val = 0, max_val = 10, resolution = 3,
      universe = [0, 5, 10], terms = [(''alto'', [0, 1 / 2, 1])]\<rparr>"

definition ghost_rule :: FuzzyRule where
  "ghost_rule = \<lparr>antecedents = [(''fantasma'', ''x'')], consequents = [(''saida'', ''alto'')]\<rparr>"

definition ghost_fis :: FuzzyInferenceSystem where
  "ghost_fis = add_rule (add_output (FuzzyInferenceSystem_init ''fantasma'') saida_var) ghost_rule"

text \<open>A system with the same output, an input \<open>x\<close> on \<open>[0, 10]\<close> whose term \<open>baixo\<close> is
  \<^verbatim>\<open>trimf [0, 0, 10]\<close>, and the rule \<open>x = baixo \<rightarrow> saida = alto\<close>.\<close>

definition x_var :: FuzzyVariable where
  "x_var = \<lparr>var_name = ''x'', min_val = 0, max_val = 10, resolution = 3,
      universe = [0, 5, 10], terms = [(''baixo'', [1, 1 / 2, 0])]\<rparr>"

definition quiet_fis :: FuzzyInferenceSystem where
  "quiet_fis =
     add_rule (add_output (add_input (FuzzyInferenceSystem_init ''quieto'') x_var) saida_var)
       \<lparr>antecedents = [(''x'', ''baixo'')], consequents = [(''saida'', ''alto'')]\<rparr>"

text \<open>The optimizer as \<^verbatim>\<open>ParallelParkingVisualizer\<close> configures it, with the default
  rates, ranges \<open>(-2, 2)\<close> and precision \<open>1e-8\<close> of \<^verbatim>\<open>GeneticAlgorithm.__init__\<close>; the
  population size and the number of generations are left open.\<close>

definition baliza_obstacles :: "Obstacle list" where
  "baliza_obstacles =
     [\<lparr>obs_x = 700, obs_y = 170, obs_width = 60, obs_height = 120\<rparr>,
      \<lparr>obs_x = 700, obs_y = 430, obs_width = 60, obs_height = 120\<rparr>,
      \<lparr>obs_x = 770, obs_y = 0, obs_width = 10, obs_height = 700\<rparr>,
      \<lparr>obs_x = 0, obs_y = 0, obs_width = 10, obs_height = 700\<rparr>]"

definition baliza_ga :: "int \<Rightarrow> int \<Rightarrow> GeneticAlgorithm" where
  "baliza_ga psize gens =
     \<lparr>initial_pose = (650, 100, 90), final_pose = (730, 360, 90),
      parking_spot = \<lparr>spot_x = 700, spot_y = 300, spot_length = 60, spot_width = 120\<rparr>,
      obstacles = baliza_obstacles,
      vehicle_params = [(''length'', 50), (''width'', 25), (''wheelbase'', 35)],
      population_size = psize, generations = gens,
      crossover_rate = 6 / 10, mutation_rate = 4 / 100,
      k0_range = (- 2, 2), k1_range = (- 2, 2), precision = 1 / 10 ^ 8,
      chromosome_length = 59, k0_bits = 29, k1_bits = 29, vs_bits = 1,
      best_fitness_history = [], avg_fitness_history = [], best_individual_history = []\<rparr>"

text \<open>A generator of draws that always returns the lower end of what is asked for and
  writes the name of each call to its state, so that the state after a computation is
  the sequence of the \<^verbatim>\<open>np.random\<close> calls it made.\<close>

definition trace_rng :: "string list np_random" where
  "trace_rng =
     \<lparr>rand_uniform = (\<lambda>lo hi g. (lo, g @ [''uniform''])),
      rand_choice = (\<lambda>xs g. (case xs of [] \<Rightarrow> 0 | x # _ \<Rightarrow> x, g @ [''choice''])),
      rand_randint = (\<lambda>lo hi g. (nat lo, g @ [''randint''])),
      rand_choice_p = (\<lambda>n ps g. (0, g @ [''choice_p''])),
      rand_random = (\<lambda>g. (0, g @ [''random'']))\<rparr>"

text \<open>A small optimizer for running the loop on concrete numbers: the scene of
  \<open>baliza_ga\<close>, ranges \<open>(0, 1)\<close> and precision \<open>1 / 256\<close> (8 bits for each parameter), a
  population of two and three generations.\<close>

definition small_ga :: GeneticAlgorithm where
  "small_ga =
     \<lparr>initial_pose = (650, 100, 90), final_pose = (730, 360, 90),
      parking_spot = \<lparr>spot_x = 700, spot_y = 300, spot_length = 60, spot_width = 120\<rparr>,
      obstacles = baliza_obstacles,
      vehicle_params = [(''length'', 50), (''width'', 25), (''wheelbase'', 35)],
      population_size = 2, generations = 3,
      crossover_rate = 6 / 10, mutation_rate = 4 / 100,
      k0_range = (0, 1), k1_range = (0, 1), precision = 1 / 256,
      chromosome_length = 17, k0_bits = 8, k1_bits = 8, vs_bits = 1,
      best_fitness_history = [], avg_fitness_history = [], best_individual_history = []\<rparr>"

text \<open>A stand-in for the curve generator, for the same purpose: the two end poses, a
  length that decreases as \<open>k0 + k1\<close> grows, and no steering.\<close>

definition segment_generator :: generator where
  "segment_generator ga k0 k1 vs = ([initial_pose ga, final_pose ga], 3 - k0 - k1, 0)"

text \<open>A hybrid controller for running one control step on concrete numbers. Its fuzzy
  system has the four inputs that \<^verbatim>\<open>get_fuzzy_control\<close> passes and the two outputs it
  reads, each sampled at the two ends of its domain, and no rule: it infers the midpoint
  of each output, steering 0 and velocity 50. \<open>parked_system\<close> has no optimized path;
  \<open>tracking_system\<close> has the forward path of the single pose \<open>(0, 0, 0)\<close>.\<close>

definition two_point_var :: "string \<Rightarrow> real \<Rightarrow> real \<Rightarrow> FuzzyVariable" where
  "two_point_var nm lo hi =
     \<lparr>var_name = nm, min_val = lo, max_val = hi, resolution = 2, universe = [lo, hi], terms = []\<rparr>"

definition plain_fis :: FuzzyInferenceSystem where
  "plain_fis =
     add_output (add_output
       (add_input (add_input (add_input (add_input (FuzzyInferenceSystem_init ''plano'')
          (two_point_var ''distancia_frontal'' 0 400))
          (two_point_var ''distancia_lateral'' (- 80) 80))
          (two_point_var ''angulo_veiculo'' (- 90) 90))
          (two_point_var ''profundidade_vaga'' 0 150))
       (two_point_var ''angulo_direcao'' (- 40) 40))
       (two_point_var ''velocidade'' 0 100)"

definition parked_system :: HybridParkingSystem where
  "parked_system =
     HybridParkingSystem_init plain_fis (0, 0, 0) (0, 0, 0)
       \<lparr>spot_x = 700, spot_y = 300, spot_length = 60, spot_width = 120\<rparr> []
       [(''length'', 50), (''width'', 25), (''wheelbase'', 35)]"

definition point_result :: ga_result where
  "point_result =
     \<lparr>res_k0 = 0, res_k1 = 0, res_vs = 1, res_path_length = 0, res_max_steering = 0,
      res_objective_value = 0, res_has_collision = False, res_trajectory = [(0, 0, 0)],
      res_fitness_history = [0], res_avg_fitness_history = [0]\<rparr>"

definition tracking_system :: HybridParkingSystem where
  "tracking_system =
     parked_system\<lparr>hy_ga_result := Some point_result,
       trajectory_tracker := Some (TrajectoryTracker_init (res_trajectory point_result)),
       ga_optimized := True\<rparr>"

definition vehicle_at_origin :: "real \<Rightarrow> Vehicle" where
  "vehicle_at_origin front =
     \<lparr>veh_x = 0, veh_y = 0, veh_angle = 0, sensor_front = front, sensor_lateral = 0,
      sensor_angle = 0, sensor_depth = 0\<rparr>"

section \<open>Properties of the fuzzy inference\<close>

lemma saida_var_built:
  "bind_err (FuzzyVariable_init ''saida'' (0, 10) 3) (\<lambda>v. add_term v ''alto'' ''trimf'' [0, 10, 10])
     = Inr saida_var"
  by (simp add: bind_err_def FuzzyVariable_init_def np_linspace_def add_term_def triangular_mf_def
        np_clip_def saida_var_def upt_conv_Cons)

lemma x_var_built:
  "bind_err (FuzzyVariable_init ''x'' (0, 10) 3) (\<lambda>v. add_term v ''baixo'' ''trimf'' [0, 0, 10])
     = Inr x_var"
  by (simp add: bind_err_def FuzzyVariable_init_def np_linspace_def add_term_def triangular_mf_def
        np_clip_def x_var_def upt_conv_Cons)

text \<open>In the activation loop of \<^verbatim>\<open>infer\<close> a clause on a variable that was not
  fuzzified, or on a term the variable does not have, changes nothing; in the loop of
  \<^verbatim>\<open>get_active_rules_info\<close> it makes the activation 0.\<close>

lemma activation_clause_unknown:
  "map_of fz (fst clause) = None
     \<or> (\<exists>ms. map_of fz (fst clause) = Some ms \<and> map_of ms (snd clause) = None)
   \<Longrightarrow> activation_clause fz clause activation = activation"
  by (auto simp: activation_clause_def)

lemma info_activation_unknown:
  "map_of fz (fst clause) = None
     \<or> (\<exists>ms. map_of fz (fst clause) = Some ms \<and> map_of ms (snd clause) = None)
   \<Longrightarrow> info_activation fz (clause # rest) activation = 0"
  by auto

text \<open>
  C1. The claim: a rule with an antecedent clause on an unknown variable or term has
  activation 0 in \<^verbatim>\<open>infer\<close> and adds nothing to any aggregate, and no error is raised.
  The code of \<^verbatim>\<open>infer\<close> passes such a clause over and keeps the activation it had.
  On \<open>ghost_fis\<close>, whose only rule has the unknown variable \<open>fantasma\<close> as its only
  antecedent, \<^verbatim>\<open>infer\<close> raises nothing, yet the rule has activation 1 and the output
  is the centroid \<open>25 / 3\<close> of the consequent term, not the midpoint 5 of a
  rule that did not fire; \<^verbatim>\<open>get_active_rules_info\<close>, evaluated right after on the same
  fuzzification, gives the rule activation 0 and lists no active rule.
\<close>

theorem infer_unknown_antecedent_still_fires:
  "fst (infer ghost_fis []) = Inr [(''saida'', 25 / 3)]
   \<and> infer_activation [] ghost_rule = 1
   \<and> infer_aggregated ghost_fis [] = Inr [(''saida'', [0, 1 / 2, 1])]
   \<and> info_activation [] (antecedents ghost_rule) 1 = 0
   \<and> get_active_rules_info (snd (infer ghost_fis [])) = []"
  by (simp add: infer_def ghost_fis_def ghost_rule_def add_rule_def add_output_def
        FuzzyInferenceSystem_init_def saida_var_def infer_aggregated_def initial_aggregated_def
        infer_activation_def activation_clause_def apply_consequent_def bind_err_def
        np_elementwise_def defuzzify_output_def get_active_rules_info_def)

subsection \<open>The shape of the aggregate\<close>

lemma np_elementwise_length:
  "np_elementwise f xs ys = Inr zs \<Longrightarrow> length zs = length xs"
  by (auto simp: np_elementwise_def split: if_splits)

lemma apply_consequent_shape:
  assumes "apply_consequent outs act cl agg = Inr agg'"
  shows "map fst agg' = map fst agg \<and>
         (\<forall>n a'. map_of agg' n = Some a' \<longrightarrow> (\<exists>a. map_of agg n = Some a \<and> length a' = length a))"
proof (cases "agg' = agg")
  case True
  then show ?thesis by simp
next
  case False
  with assms obtain old imp new where
    o: "map_of agg (fst cl) = Some old" and
    n: "np_elementwise max old imp = Inr new" and
    u: "agg' = AList.update (fst cl) new agg"
    by (auto simp: apply_consequent_def bind_err_def Let_def split: option.splits sum.splits)
  from o have k: "fst cl \<in> fst ` set agg"
    by (metis map_of_eq_None_iff option.distinct(1))
  have l: "length new = length old"
    using n by (rule np_elementwise_length)
  from k u have "map fst agg' = map fst agg"
    by (simp add: update_keys)
  moreover have "\<forall>n a'. map_of agg' n = Some a' \<longrightarrow> (\<exists>a. map_of agg n = Some a \<and> length a' = length a)"
    using u o l by (auto simp: update_conv')
  ultimately show ?thesis by blast
qed

lemma apply_consequents_shape:
  "apply_consequents outs act cls agg = Inr agg' \<Longrightarrow>
     map fst agg' = map fst agg \<and>
     (\<forall>n a'. map_of agg' n = Some a' \<longrightarrow> (\<exists>a. map_of agg n = Some a \<and> length a' = length a))"
proof (induction cls arbitrary: agg)
  case Nil
  then show ?case by simp
next
  case (Cons cl cls)
  from Cons.prems obtain mid where
    m1: "apply_consequent outs act cl agg = Inr mid" and
    m2: "apply_consequents outs act cls mid = Inr agg'"
    by (auto simp: bind_err_def split: sum.splits)
  from apply_consequent_shape[OF m1] Cons.IH[OF m2] show ?case
    by metis
qed

lemma apply_rules_shape:
  "apply_rules outs fz rs agg = Inr agg' \<Longrightarrow>
     map fst agg' = map fst agg \<and>
     (\<forall>n a'. map_of agg' n = Some a' \<longrightarrow> (\<exists>a. map_of agg n = Some a \<and> length a' = length a))"
proof (induction rs arbitrary: agg)
  case Nil
  then show ?case by simp
next
  case (Cons r rs)
  from Cons.prems obtain mid where
    m1: "apply_consequents outs (infer_activation fz r) (consequents r) agg = Inr mid" and
    m2: "apply_rules outs fz rs mid = Inr agg'"
    by (auto simp: bind_err_def split: sum.splits)
  from apply_consequents_shape[OF m1] Cons.IH[OF m2] show ?case
    by metis
qed

lemma initial_aggregated_keys: "map fst (initial_aggregated outs) = map fst outs"
  by (induction outs) (auto simp: initial_aggregated_def)

lemma initial_aggregated_lookup:
  "map_of (initial_aggregated outs) n = Some a \<Longrightarrow>
     \<exists>v. map_of outs n = Some v \<and> length a = length (universe v)"
  by (induction outs) (auto simp: initial_aggregated_def split: if_splits)

lemma infer_aggregated_shape:
  assumes "infer_aggregated fis fz = Inr agg"
  shows "map fst agg = map fst (outputs fis)"
    and "map_of agg n = Some a \<Longrightarrow> \<exists>v. map_of (outputs fis) n = Some v \<and> length a = length (universe v)"
proof -
  from assms have s: "apply_rules (outputs fis) fz (rules fis) (initial_aggregated (outputs fis)) = Inr agg"
    by (simp add: infer_aggregated_def)
  from apply_rules_shape[OF s] show "map fst agg = map fst (outputs fis)"
    by (simp add: initial_aggregated_keys)
  assume "map_of agg n = Some a"
  with apply_rules_shape[OF s] obtain a0 where
    "map_of (initial_aggregated (outputs fis)) n = Some a0" "length a = length a0"
    by blast
  with initial_aggregated_lookup show "\<exists>v. map_of (outputs fis) n = Some v \<and> length a = length (universe v)"
    by fastforce
qed

subsection \<open>Defuzzification of a well-shaped aggregate\<close>

lemma defuzzify_all_result:
  assumes "distinct (map fst agg)"
    and "\<forall>(n, a) \<in> set agg. \<exists>v. map_of outs n = Some v \<and> length (universe v) = length a"
  shows "\<exists>res. defuzzify_all outs agg acc = Inr res \<and>
           (\<forall>n a v. (n, a) \<in> set agg \<and> map_of outs n = Some v \<and> sum_list a = 0 \<longrightarrow>
               map_of res n = Some ((min_val v + max_val v) / 2)) \<and>
           (\<forall>n. n \<notin> fst ` set agg \<longrightarrow> map_of res n = map_of acc n)"
  using assms
proof (induction agg arbitrary: acc)
  case Nil
  then show ?case by simp
next
  case (Cons e agg)
  obtain n0 a0 where e: "e = (n0, a0)" by (cases e)
  from Cons.prems(2) e obtain v0 where v0: "map_of outs n0 = Some v0" "length (universe v0) = length a0"
    by auto
  define x where "x = (if sum_list a0 \<noteq> 0 then sum_list (map2 (*) (universe v0) a0) / sum_list a0
                       else (min_val v0 + max_val v0) / 2)"
  have d: "defuzzify_output outs e = Inr x"
    using v0 e by (simp add: defuzzify_output_def np_elementwise_def bind_err_def x_def Let_def)
  from Cons.prems have p: "distinct (map fst agg)"
    "\<forall>(n, a) \<in> set agg. \<exists>v. map_of outs n = Some v \<and> length (universe v) = length a"
    by auto
  from Cons.IH[OF p, of "AList.update n0 x acc"] obtain res where
    r: "defuzzify_all outs agg (AList.update n0 x acc) = Inr res"
       "\<forall>n a v. (n, a) \<in> set agg \<and> map_of outs n = Some v \<and> sum_list a = 0 \<longrightarrow>
               map_of res n = Some ((min_val v + max_val v) / 2)"
       "\<forall>n. n \<notin> fst ` set agg \<longrightarrow> map_of res n = map_of (AList.update n0 x acc) n"
    by blast
  have n0: "n0 \<notin> fst ` set agg" using Cons.prems(1) e by auto
  have "defuzzify_all outs (e # agg) acc = Inr res"
    using d r(1) e by (simp add: bind_err_def)
  moreover have "map_of res n0 = Some x"
    using r(3) n0 by (simp add: update_conv')
  moreover have "\<forall>n. n \<notin> fst ` set (e # agg) \<longrightarrow> map_of res n = map_of acc n"
    using r(3) e by (auto simp: update_conv')
  ultimately show ?case
    using r(2) e v0 by (auto simp: x_def)
qed

text \<open>
  C7. When the aggregated membership array of an output is all zeros (no rule fired
  for it), \<^verbatim>\<open>infer\<close> returns, and the value it returns for that output is the midpoint
  \<open>(min_val + max_val) / 2\<close> of the output's domain. The output names are the keys of a
  dictionary, hence distinct.
\<close>

theorem infer_no_rule_fires_midpoint:
  assumes fz: "fuzzify_inputs (inputs fis) input_values [] = Inr fz"
    and agg: "infer_aggregated fis fz = Inr aggregated"
    and dist: "distinct (map fst (outputs fis))"
    and ov: "map_of (outputs fis) output_name = Some output_var"
    and amf: "map_of aggregated output_name = Some aggregated_mf"
    and zero: "\<forall>m \<in> set aggregated_mf. m = 0"
  shows "\<exists>output_values. fst (infer fis input_values) = Inr output_values \<and>
           map_of output_values output_name = Some ((min_val output_var + max_val output_var) / 2)"
proof -
  have keys: "map fst aggregated = map fst (outputs fis)"
    by (rule infer_aggregated_shape(1)[OF agg])
  then have d: "distinct (map fst aggregated)" using dist by simp
  have shape: "\<forall>(n, a) \<in> set aggregated. \<exists>v. map_of (outputs fis) n = Some v \<and> length (universe v) = length a"
  proof clarify
    fix n a assume "(n, a) \<in> set aggregated"
    with d have "map_of aggregated n = Some a" by simp
    from infer_aggregated_shape(2)[OF agg this]
    show "\<exists>v. map_of (outputs fis) n = Some v \<and> length (universe v) = length a" by auto
  qed
  from defuzzify_all_result[OF d shape, of "[]"] obtain res where
    r: "defuzzify_all (outputs fis) aggregated [] = Inr res"
       "\<forall>n a v. (n, a) \<in> set aggregated \<and> map_of (outputs fis) n = Some v \<and> sum_list a = 0 \<longrightarrow>
               map_of res n = Some ((min_val v + max_val v) / 2)"
    by blast
  have s0: "sum_list aggregated_mf = 0"
    using zero by (induction aggregated_mf) auto
  have mem: "(output_name, aggregated_mf) \<in> set aggregated"
    using amf by (rule map_of_SomeD)
  have "fst (infer fis input_values) = Inr res"
    using fz agg r(1) by (simp add: infer_def bind_err_def)
  moreover have "map_of res output_name = Some ((min_val output_var + max_val output_var) / 2)"
    using r(2) mem ov s0 by blast
  ultimately show ?thesis by blast
qed

text \<open>The witness: on \<open>quiet_fis\<close> the input \<open>x = 10\<close> has membership 0 in \<open>baixo\<close>, the
  only rule has activation 0, the aggregate of \<open>saida\<close> is all zeros and the output is
  the midpoint 5 of \<open>[0, 10]\<close>.\<close>

theorem infer_no_rule_fires_midpoint_witness:
  "fuzzify_inputs (inputs quiet_fis) [(''x'', 10)] [] = Inr [(''x'', [(''baixo'', 0)])]
   \<and> infer_aggregated quiet_fis [(''x'', [(''baixo'', 0)])] = Inr [(''saida'', [0, 0, 0])]
   \<and> (\<exists>output_values. fst (infer quiet_fis [(''x'', 10)]) = Inr output_values
         \<and> map_of output_values ''saida'' = Some 5)"
proof -
  have h1: "fuzzify_inputs (inputs quiet_fis) [(''x'', 10)] [] = Inr [(''x'', [(''baixo'', 0)])]"
    by (simp add: quiet_fis_def add_rule_def add_output_def add_input_def
          FuzzyInferenceSystem_init_def x_var_def saida_var_def fuzzify_def np_clip_def
          np_argmin_def bind_err_def py_index_def)
  have h2: "infer_aggregated quiet_fis [(''x'', [(''baixo'', 0)])] = Inr [(''saida'', [0, 0, 0])]"
    by (simp add: quiet_fis_def add_rule_def add_output_def add_input_def
          FuzzyInferenceSystem_init_def x_var_def saida_var_def infer_aggregated_def
          initial_aggregated_def infer_activation_def activation_clause_def
          apply_consequent_def bind_err_def np_elementwise_def)
  have h3: "distinct (map fst (outputs quiet_fis))"
    by (simp add: quiet_fis_def add_rule_def add_output_def add_input_def
          FuzzyInferenceSystem_init_def)
  have h4: "map_of (outputs quiet_fis) ''saida'' = Some saida_var"
    by (simp add: quiet_fis_def add_rule_def add_output_def add_input_def
          FuzzyInferenceSystem_init_def saida_var_def)
  have h5: "map_of [(''saida'', [0, 0, 0 :: real])] ''saida'' = Some [0, 0, 0]"
    by simp
  have h6: "\<forall>m \<in> set [0, 0, 0 :: real]. m = 0"
    by simp
  from infer_no_rule_fires_midpoint[OF h1 h2 h3 h4 h5 h6] h1 h2
  show ?thesis by (simp add: saida_var_def)
qed

subsection \<open>Unknown keys of the input mapping\<close>

lemma fuzzify_inputs_append:
  "fuzzify_inputs ins (xs @ ys) acc = bind_err (fuzzify_inputs ins xs acc) (fuzzify_inputs ins ys)"
  by (induction ins xs acc rule: fuzzify_inputs.induct)
     (auto simp: bind_err_def split: option.splits sum.splits)

text \<open>
  C10. An input mapping with a key that is not the name of a registered input makes
  \<^verbatim>\<open>infer\<close> raise KeyError for that key: the loop over the mapping looks every key up
  in \<^verbatim>\<open>self.inputs\<close>. Here \<open>pre\<close> are the items before the unknown key, which
  fuzzify without an exception; the object is left as it was.
\<close>

theorem infer_unknown_input_key_raises:
  assumes "fuzzify_inputs (inputs fis) pre [] = Inr fz"
    and "map_of (inputs fis) k = None"
  shows "infer fis (pre @ (k, v) # post) = (Inl (KeyError k), fis)"
  using assms by (simp add: infer_def fuzzify_inputs_append bind_err_def)

text \<open>The witness: \<open>quiet_fis\<close> has the input \<open>x\<close> only; a mapping that also gives a
  value for \<open>y\<close> raises \<open>KeyError y\<close>.\<close>

theorem infer_unknown_input_key_raises_witness:
  "fuzzify_inputs (inputs quiet_fis) [(''x'', 10)] [] = Inr [(''x'', [(''baixo'', 0)])]
   \<and> map_of (inputs quiet_fis) ''y'' = None
   \<and> infer quiet_fis [(''x'', 10), (''y'', 3)] = (Inl (KeyError ''y''), quiet_fis)"
proof -
  have h1: "fuzzify_inputs (inputs quiet_fis) [(''x'', 10)] [] = Inr [(''x'', [(''baixo'', 0)])]"
    by (simp add: quiet_fis_def add_rule_def add_output_def add_input_def
          FuzzyInferenceSystem_init_def x_var_def saida_var_def fuzzify_def np_clip_def
          np_argmin_def bind_err_def py_index_def)
  have h2: "map_of (inputs quiet_fis) ''y'' = None"
    by (simp add: quiet_fis_def add_rule_def add_output_def add_input_def
          FuzzyInferenceSystem_init_def x_var_def)
  from infer_unknown_input_key_raises[OF h1 h2, of 3 "[]"] h1 h2
  show ?thesis by simp
qed

section \<open>Properties of the encoding\<close>

lemma from_bin_snoc: "from_bin (bs @ [b]) = 2 * from_bin bs + (if b then 1 else 0)"
  by (simp add: from_bin_def)

lemma from_bin_bin_digits: "from_bin (bin_digits n) = int n"
proof (induction n rule: bin_digits.induct)
  case (1 n)
  show ?case
  proof (cases "n < 2")
    case True
    then have "n = 0 \<or> n = 1" by auto
    then show ?thesis by (auto simp: bin_digits.simps[of n] from_bin_def)
  next
    case False
    with 1 have ih: "from_bin (bin_digits (n div 2)) = int (n div 2)" by simp
    have "from_bin (bin_digits n) = 2 * int (n div 2) + (if n mod 2 = 1 then 1 else 0)"
      using False ih by (simp add: bin_digits.simps[of n] from_bin_snoc)
    also have "\<dots> = int n" by (simp; presburger)
    finally show ?thesis .
  qed
qed

lemma from_bin_zeros: "from_bin (replicate k False @ bs) = from_bin bs"
proof -
  have "foldl (\<lambda>acc b. 2 * acc + (if b then 1 else 0)) (0::int) (replicate k False) = 0"
    by (induction k) auto
  then show ?thesis by (simp add: from_bin_def)
qed

lemma from_bin_format_b: "from_bin (format_b n w) = int n"
  by (simp add: format_b_def from_bin_zeros from_bin_bin_digits)

lemma length_bin_digits: "n < 2 ^ w \<Longrightarrow> 0 < w \<Longrightarrow> length (bin_digits n) \<le> w"
proof (induction n arbitrary: w rule: bin_digits.induct)
  case (1 n)
  show ?case
  proof (cases "n < 2")
    case True
    then show ?thesis using "1.prems" by (simp add: bin_digits.simps[of n])
  next
    case False
    obtain w' where w: "w = Suc w'" using "1.prems"(2) by (cases w) auto
    have w'pos: "0 < w'"
    proof (rule ccontr)
      assume "\<not> 0 < w'"
      then have "w = 1" using w by simp
      with "1.prems"(1) False show False by simp
    qed
    have "n div 2 < 2 ^ w'" using "1.prems"(1) w by auto
    from "1.IH"[OF False this w'pos] show ?thesis
      using False w by (simp add: bin_digits.simps[of n])
  qed
qed

lemma length_format_b: "n < 2 ^ w \<Longrightarrow> 0 < w \<Longrightarrow> length (format_b n w) = w"
  using length_bin_digits[of n w] by (simp add: format_b_def)

lemma calculate_bits_Inr:
  assumes "calculate_bits min_v max_v prec = Inr bits"
  shows "prec \<noteq> 0" and "0 < (max_v - min_v) / prec" and "8 \<le> bits"
    and "(max_v - min_v) / prec \<le> 2 ^ bits"
proof -
  let ?R = "(max_v - min_v) / prec"
  from assms show p: "prec \<noteq> 0"
    by (auto simp: calculate_bits_def Let_def split: if_splits)
  from assms have "?R \<noteq> 0" "\<not> ?R < 0"
    by (auto simp: calculate_bits_def Let_def split: if_splits)
  then show r: "0 < ?R" by linarith
  from assms p r have b: "bits = nat (max \<lceil>log 2 ?R\<rceil> 8)"
    by (auto simp: calculate_bits_def Let_def split: if_splits)
  then show "8 \<le> bits" by simp
  have "\<lceil>log 2 ?R\<rceil> \<le> max \<lceil>log 2 ?R\<rceil> 8" by (rule max.cobounded1)
  also have "\<dots> = int bits"
  proof -
    have "(0::int) \<le> max \<lceil>log 2 ?R\<rceil> 8" by linarith
    then show ?thesis unfolding b by (rule nat_0_le[symmetric])
  qed
  finally have "\<lceil>log 2 ?R\<rceil> \<le> int bits" .
  then have "log 2 ?R \<le> real bits" by (simp add: ceiling_le_iff)
  then have "?R \<le> 2 powr real bits" using r by (simp add: log_le_iff)
  then show "?R \<le> 2 ^ bits" by (simp add: powr_realpow)
qed

text \<open>The default ranges and precision give 29 bits: \<open>2^28 < 4 * 10^8 \<le> 2^29\<close>.\<close>

lemma calculate_bits_default: "calculate_bits (- 2) 2 (1 / 10 ^ 8) = Inr 29"
proof -
  have "\<lceil>log 2 (400000000::real)\<rceil> = 29"
  proof (rule ceiling_unique)
    have "(2::real) powr 28 < 400000000" by (simp add: powr_realpow[of 2 28, simplified])
    then show "real_of_int 29 - 1 < log 2 400000000" by (simp add: less_log_iff)
    have "(400000000::real) \<le> 2 powr 29" by (simp add: powr_realpow[of 2 29, simplified])
    then show "log 2 400000000 \<le> real_of_int 29" by (simp add: log_le_iff)
  qed
  then show ?thesis by (simp add: calculate_bits_def)
qed

text \<open>
  C3. For a bit width that \<^verbatim>\<open>_calculate_bits\<close> produces for a range and a precision,
  and a value \<open>v\<close> of the range, encoding \<open>v\<close> and decoding the bits succeed and give
  back \<open>v\<close> to within twice the precision. (Over the reals; the rounding of the
  floating-point operations is not part of the model.)
\<close>

theorem encode_decode_round_trip:
  assumes bits: "calculate_bits min_v max_v prec = Inr bits"
    and lo: "min_v \<le> v" and hi: "v \<le> max_v"
  shows "\<exists>binary v'. encode_parameter v min_v max_v bits = Inr binary \<and>
           decode_parameter binary min_v max_v = Inr v' \<and> \<bar>v' - v\<bar> \<le> 2 * prec"
proof -
  let ?R = "(max_v - min_v) / prec"
  note cb = calculate_bits_Inr[OF bits]
  have range_nonneg: "0 \<le> max_v - min_v" using lo hi by simp
  have range_pos: "0 < max_v - min_v"
  proof (rule ccontr)
    assume "\<not> 0 < max_v - min_v"
    with range_nonneg have "max_v - min_v = 0" by simp
    with cb(2) show False by simp
  qed
  have prec_pos: "0 < prec"
    using cb(2) range_pos by (simp add: zero_less_divide_iff)
  define M :: int where "M = 2 ^ bits - 1"
  have pow_ge: "(256::real) \<le> 2 ^ bits"
  proof -
    have "(2::real) ^ 8 \<le> 2 ^ bits" using cb(3) by (intro power_increasing) auto
    then show ?thesis by simp
  qed
  have M_real: "real_of_int M = 2 ^ bits - 1" by (simp add: M_def)
  have M_pos: "0 < M" using pow_ge M_real by linarith
  define nrm where "nrm = (v - min_v) / (max_v - min_v)"
  have nrm0: "0 \<le> nrm" using lo range_pos by (simp add: nrm_def)
  have nrm1: "nrm \<le> 1" using hi range_pos by (simp add: nrm_def)
  have clip: "np_clip nrm 0 1 = nrm" using nrm0 nrm1 by (simp add: np_clip_def)
  define iv :: int where "iv = \<lfloor>nrm * real_of_int M\<rfloor>"
  have prod0: "0 \<le> nrm * real_of_int M" using nrm0 M_pos by simp
  have iv0: "0 \<le> iv" using prod0 by (simp add: iv_def)
  have "nrm * real_of_int M \<le> real_of_int M" using nrm1 M_pos by (simp add: mult_left_le_one_le)
  then have ivM: "iv \<le> M" unfolding iv_def by (simp add: floor_le_iff)
  have iv_lt: "nat iv < 2 ^ bits"
  proof -
    have "iv < 2 ^ bits" using ivM by (simp add: M_def)
    then show ?thesis using iv0 by (simp add: nat_less_iff)
  qed
  have bits_pos: "0 < bits" using cb(3) by simp
  define binary where "binary = format_b (nat iv) bits"
  have enc: "encode_parameter v min_v max_v bits = Inr binary"
    using range_pos prod0
    by (simp add: encode_parameter_def Let_def clip[unfolded nrm_def] py_int_def binary_def
          iv_def nrm_def M_def)
  have len: "length binary = bits"
    unfolding binary_def by (rule length_format_b[OF iv_lt bits_pos])
  have fb: "from_bin binary = iv"
    unfolding binary_def using iv0 by (simp add: from_bin_format_b)
  define v' where "v' = min_v + (real_of_int iv / real_of_int M) * (max_v - min_v)"
  have ne: "binary \<noteq> []" using len bits_pos by auto
  have dec: "decode_parameter binary min_v max_v = Inr v'"
    using ne M_pos by (simp add: decode_parameter_def Let_def len fb v'_def M_def)
  have v_eq: "v = min_v + nrm * (max_v - min_v)" using range_pos by (simp add: nrm_def)
  have fl1: "real_of_int iv \<le> nrm * real_of_int M" unfolding iv_def by simp
  have fl2: "nrm * real_of_int M < real_of_int iv + 1" unfolding iv_def by linarith
  have Mr: "0 < real_of_int M" using M_pos by simp
  have q1: "real_of_int iv / real_of_int M \<le> nrm"
    using fl1 Mr by (simp add: pos_divide_le_eq)
  have q2: "nrm - real_of_int iv / real_of_int M < 1 / real_of_int M"
  proof -
    have "(nrm * real_of_int M - real_of_int iv) / real_of_int M < 1 / real_of_int M"
      using fl2 Mr by (simp add: divide_strict_right_mono)
    then show ?thesis using Mr by (simp add: diff_divide_distrib)
  qed
  have diff: "v - v' = (nrm - real_of_int iv / real_of_int M) * (max_v - min_v)"
    by (simp add: v_eq v'_def algebra_simps)
  have d0: "0 \<le> v - v'" using diff q1 range_pos by simp
  have d1: "v - v' \<le> (max_v - min_v) / real_of_int M"
  proof -
    have "(nrm - real_of_int iv / real_of_int M) * (max_v - min_v)
            \<le> (1 / real_of_int M) * (max_v - min_v)"
      using q2 range_pos by (intro mult_right_mono) auto
    then show ?thesis using diff by simp
  qed
  have R_le: "max_v - min_v \<le> prec * 2 ^ bits"
    using cb(4) prec_pos by (simp add: pos_divide_le_eq mult.commute)
  have "2 ^ bits \<le> 2 * real_of_int M" using pow_ge M_real by linarith
  then have "prec * 2 ^ bits \<le> prec * (2 * real_of_int M)"
    using prec_pos by (intro mult_left_mono) auto
  with R_le have "max_v - min_v \<le> (2 * prec) * real_of_int M" by (simp add: algebra_simps)
  then have "(max_v - min_v) / real_of_int M \<le> 2 * prec"
    using Mr by (simp add: pos_divide_le_eq)
  with d0 d1 have "\<bar>v' - v\<bar> \<le> 2 * prec" by simp
  with enc dec show ?thesis by blast
qed

text \<open>The witness: the default range \<open>(-2, 2)\<close> and precision \<open>1e-8\<close>, 29 bits, and the
  value \<open>1 / 2\<close>.\<close>

theorem encode_decode_round_trip_witness:
  "calculate_bits (- 2) 2 (1 / 10 ^ 8) = Inr 29 \<and> (- 2 :: real) \<le> 1 / 2 \<and> (1 / 2 :: real) \<le> 2
   \<and> (\<exists>binary v'. encode_parameter (1 / 2) (- 2) 2 29 = Inr binary \<and>
         decode_parameter binary (- 2) 2 = Inr v' \<and> \<bar>v' - 1 / 2\<bar> \<le> 2 * (1 / 10 ^ 8))"
proof -
  have h2: "(- 2 :: real) \<le> 1 / 2" by simp
  have h3: "(1 / 2 :: real) \<le> 2" by simp
  from encode_decode_round_trip[OF calculate_bits_default h2 h3] calculate_bits_default
  show ?thesis by simp
qed

section \<open>Properties of the decoding under a forced direction\<close>

lemma decode_parameter_nonempty:
  "binary \<noteq> [] \<Longrightarrow> \<exists>x. decode_parameter binary min_v max_v = Inr x"
  by (simp add: decode_parameter_def Let_def)

lemma GeneticAlgorithm_init_bits:
  assumes "GeneticAlgorithm_init ip fp spot obs vp psize gens cr mr k0r k1r prec = Inr ga"
  shows "8 \<le> k0_bits ga" and "8 \<le> k1_bits ga"
    and "chromosome_length ga = k0_bits ga + k1_bits ga + 1"
proof -
  from assms obtain k0b k1b where
    b0: "calculate_bits (fst k0r) (snd k0r) prec = Inr k0b" and
    b1: "calculate_bits (fst k1r) (snd k1r) prec = Inr k1b" and
    g: "k0_bits ga = k0b" "k1_bits ga = k1b" "chromosome_length ga = k0b + k1b + 1"
    by (auto simp: GeneticAlgorithm_init_def bind_err_def split: sum.splits)
  from calculate_bits_Inr(3)[OF b0] g show "8 \<le> k0_bits ga" by simp
  from calculate_bits_Inr(3)[OF b1] g show "8 \<le> k1_bits ga" by simp
  from g show "chromosome_length ga = k0_bits ga + k1_bits ga + 1" by simp
qed

lemma decode_individual_trailing_bit:
  assumes "0 < k0_bits ga" and "0 < k1_bits ga"
    and "length body = k0_bits ga + k1_bits ga"
  shows "\<exists>k0 k1. \<forall>b. decode_individual ga (body @ [b]) = Inr (k0, k1, if b then 1 else - 1)"
proof -
  have n0: "take (k0_bits ga) body \<noteq> []" using assms by auto
  have n1: "take (k1_bits ga) (drop (k0_bits ga) body) \<noteq> []" using assms by auto
  from decode_parameter_nonempty[OF n0] obtain k0 where
    k0: "decode_parameter (take (k0_bits ga) body) (fst (k0_range ga)) (snd (k0_range ga)) = Inr k0"
    by blast
  from decode_parameter_nonempty[OF n1] obtain k1 where
    k1: "decode_parameter (take (k1_bits ga) (drop (k0_bits ga) body))
           (fst (k1_range ga)) (snd (k1_range ga)) = Inr k1"
    by blast
  have "\<forall>b. decode_individual ga (body @ [b]) = Inr (k0, k1, if b then 1 else - 1)"
    using assms(3) k0 k1 by (simp add: decode_individual_def Let_def bind_err_def py_index_def)
  then show ?thesis by blast
qed

text \<open>
  C9. For an optimizer built by \<^verbatim>\<open>__init__\<close> and a chromosome of its length, the
  unforced decoding returns some \<open>(k0, k1, vs)\<close>, and the decoding that
  \<^verbatim>\<open>_run_single_phase\<close> installs for a forced direction \<open>fd\<close> returns \<open>(k0, k1, fd)\<close>:
  the same \<open>k0\<close> and \<open>k1\<close>, and the forced direction whatever the trailing bit is.
\<close>

theorem forced_decode_direction:
  assumes init: "GeneticAlgorithm_init ip fp spot obs vp psize gens cr mr k0r k1r prec = Inr ga"
    and len: "length c = chromosome_length ga"
  shows "\<exists>k0 k1 vs. decode_individual ga c = Inr (k0, k1, vs)
           \<and> forced_decode (decode_individual ga) fd c = Inr (k0, k1, fd)
           \<and> (\<forall>b. forced_decode (decode_individual ga) fd (butlast c @ [b]) = Inr (k0, k1, fd))"
proof -
  note bits = GeneticAlgorithm_init_bits[OF init]
  from len bits(3) have "c \<noteq> []" by auto
  then have c: "c = butlast c @ [last c]" by simp
  have lb: "length (butlast c) = k0_bits ga + k1_bits ga" using len bits(3) by simp
  have p0: "0 < k0_bits ga" and p1: "0 < k1_bits ga" using bits(1,2) by simp_all
  from decode_individual_trailing_bit[OF p0 p1 lb] obtain k0 k1 where
    d: "\<forall>b. decode_individual ga (butlast c @ [b]) = Inr (k0, k1, if b then 1 else - 1)"
    by blast
  from d have dc: "decode_individual ga c = Inr (k0, k1, if last c then 1 else - 1)"
    using c by metis
  have f: "\<forall>b. forced_decode (decode_individual ga) fd (butlast c @ [b]) = Inr (k0, k1, fd)"
    using d by (simp add: forced_decode_def bind_err_def)
  have fc: "forced_decode (decode_individual ga) fd c = Inr (k0, k1, fd)"
    using dc by (simp add: forced_decode_def bind_err_def)
  from dc fc f show ?thesis by blast
qed

lemma baliza_ga_built:
  "GeneticAlgorithm_init (650, 100, 90) (730, 360, 90)
     \<lparr>spot_x = 700, spot_y = 300, spot_length = 60, spot_width = 120\<rparr> baliza_obstacles
     [(''length'', 50), (''width'', 25), (''wheelbase'', 35)] psize gens (6 / 10) (4 / 100)
     (- 2, 2) (- 2, 2) (1 / 10 ^ 8) = Inr (baliza_ga psize gens)"
  using calculate_bits_default
  by (simp add: GeneticAlgorithm_init_def bind_err_def baliza_ga_def)

text \<open>The witness: the optimizer of \<^verbatim>\<open>ParallelParkingVisualizer\<close> (population 50, 50
  generations), the chromosome of 59 ones, and the reverse direction forced.\<close>

theorem forced_decode_direction_witness:
  "length (replicate 59 True) = chromosome_length (baliza_ga 50 50)
   \<and> (\<exists>k0 k1 vs. decode_individual (baliza_ga 50 50) (replicate 59 True) = Inr (k0, k1, vs)
         \<and> forced_decode (decode_individual (baliza_ga 50 50)) (- 1) (replicate 59 True)
             = Inr (k0, k1, - 1)
         \<and> (\<forall>b. forced_decode (decode_individual (baliza_ga 50 50)) (- 1)
                   (butlast (replicate 59 True) @ [b]) = Inr (k0, k1, - 1)))"
proof -
  have h: "length (replicate 59 True) = chromosome_length (baliza_ga 50 50)"
    by (simp add: baliza_ga_def)
  from forced_decode_direction[OF baliza_ga_built h, of "- 1"] h
  show ?thesis by blast
qed

text \<open>A run with a forced direction that returns, returns that direction: the result is
  decoded with the installed decoder.\<close>

lemma run_single_phase_forced_vs:
  assumes "fst (run_single_phase rng gen ga (Some fd) g) = Inr r"
  shows "res_vs (fst r) = fd"
  using assms
  by (auto simp: run_single_phase_def run_def forced_decode_def bind_err_def Let_def
        split: sum.splits option.splits prod.splits)

section \<open>Properties of the two-phase combination\<close>

text \<open>
  C4. The combination of two phase results has the trajectory of phase 1 followed by
  that of phase 2, the sum of the two path lengths, the larger of the two peak steering
  angles, and a collision flag that is the disjunction of the two.
\<close>

theorem combine_phases_fields:
  "comb_trajectory (combine_phases phase1 phase2) = res_trajectory phase1 @ res_trajectory phase2
   \<and> comb_path_length (combine_phases phase1 phase2) = res_path_length phase1 + res_path_length phase2
   \<and> comb_max_steering (combine_phases phase1 phase2)
       = max (res_max_steering phase1) (res_max_steering phase2)
   \<and> comb_has_collision (combine_phases phase1 phase2)
       = (res_has_collision phase1 \<or> res_has_collision phase2)"
  by (simp add: combine_phases_def)

section \<open>Properties of the tracking error\<close>

lemma wrap_above_le: "wrap_above a \<le> 180"
proof (induction a rule: wrap_above.induct)
  case (1 a)
  then show ?case by (cases "a > 180") (simp_all add: wrap_above.simps[of a])
qed

lemma wrap_below_ge: "- 180 \<le> wrap_below a"
proof (induction a rule: wrap_below.induct)
  case (1 a)
  then show ?case by (cases "a < - 180") (simp_all add: wrap_below.simps[of a])
qed

lemma wrap_below_le: "a \<le> 180 \<Longrightarrow> wrap_below a \<le> 180"
proof (induction a rule: wrap_below.induct)
  case (1 a)
  then show ?case by (cases "a < - 180") (simp_all add: wrap_below.simps[of a])
qed

lemma wrap_above_turns: "\<exists>k::int. wrap_above a = a + 360 * real_of_int k"
proof (induction a rule: wrap_above.induct)
  case (1 a)
  show ?case
  proof (cases "a > 180")
    case True
    with 1 obtain k :: int where "wrap_above (a - 360) = a - 360 + 360 * real_of_int k" by blast
    then have "wrap_above a = a + 360 * real_of_int (k - 1)"
      using True by (simp add: wrap_above.simps[of a])
    then show ?thesis by blast
  next
    case False
    then have "wrap_above a = a + 360 * real_of_int 0" by (simp add: wrap_above.simps[of a])
    then show ?thesis by blast
  qed
qed

lemma wrap_below_turns: "\<exists>k::int. wrap_below a = a + 360 * real_of_int k"
proof (induction a rule: wrap_below.induct)
  case (1 a)
  show ?case
  proof (cases "a < - 180")
    case True
    with 1 obtain k :: int where "wrap_below (a + 360) = a + 360 + 360 * real_of_int k" by blast
    then have "wrap_below a = a + 360 * real_of_int (k + 1)"
      using True by (simp add: wrap_below.simps[of a])
    then show ?thesis by blast
  next
    case False
    then have "wrap_below a = a + 360 * real_of_int 0" by (simp add: wrap_below.simps[of a])
    then show ?thesis by blast
  qed
qed

text \<open>
  C5, as the code has it. The angle error that \<^verbatim>\<open>calculate_tracking_error\<close> returns lies
  in the closed interval \<open>[-180, 180]\<close> and differs from
  \<open>reference_angle - vehicle_angle\<close> by a whole number of turns. The loops test
  \<^verbatim>\<open>> 180\<close> and \<^verbatim>\<open>< -180\<close>, so both ends stay as they are.
\<close>

theorem tracking_angle_error_closed_interval:
  "- 180 \<le> angle_error (fst (calculate_tracking_error t vx vy va))
   \<and> angle_error (fst (calculate_tracking_error t vx vy va)) \<le> 180
   \<and> (\<exists>k::int. angle_error (fst (calculate_tracking_error t vx vy va))
          = reference_angle (fst (calculate_tracking_error t vx vy va)) - va + 360 * real_of_int k)"
proof -
  obtain x_ref y_ref angle_ref t' where
    r: "get_reference_point t vx vy = ((x_ref, y_ref, angle_ref), t')"
    by (metis prod_cases3 surj_pair)
  have e: "angle_error (fst (calculate_tracking_error t vx vy va))
             = wrap_below (wrap_above (angle_ref - va))"
    and a: "reference_angle (fst (calculate_tracking_error t vx vy va)) = angle_ref"
    by (simp_all add: calculate_tracking_error_def r)
  obtain k1 :: int where k1: "wrap_above (angle_ref - va) = angle_ref - va + 360 * real_of_int k1"
    using wrap_above_turns by blast
  obtain k2 :: int where
    k2: "wrap_below (wrap_above (angle_ref - va)) = wrap_above (angle_ref - va) + 360 * real_of_int k2"
    using wrap_below_turns by blast
  have "wrap_below (wrap_above (angle_ref - va)) = angle_ref - va + 360 * real_of_int (k1 + k2)"
    using k1 k2 by (simp add: algebra_simps)
  then have "\<exists>k::int. wrap_below (wrap_above (angle_ref - va)) = angle_ref - va + 360 * real_of_int k"
    by blast
  then show ?thesis
    unfolding e a using wrap_below_ge wrap_below_le[OF wrap_above_le] by blast
qed

text \<open>
  C5, as the claim states it (the half-open interval \<open>(-180, 180]\<close>), fails: on a path
  of the single pose \<open>(0, 0, 0)\<close>, a vehicle at the origin with heading 180 gets the
  angle error \<open>-180\<close>, which no loop changes.
\<close>

theorem tracking_angle_error_minus_180:
  "angle_error (fst (calculate_tracking_error (TrajectoryTracker_init [(0, 0, 0)]) 0 0 180)) = - 180
   \<and> \<not> (- 180 < angle_error (fst (calculate_tracking_error (TrajectoryTracker_init [(0, 0, 0)]) 0 0 180)))"
proof -
  have r: "get_reference_point (TrajectoryTracker_init [(0, 0, 0)]) 0 0
             = ((0, 0, 0), (TrajectoryTracker_init [(0, 0, 0)])\<lparr>progress := 0, current_index := 0\<rparr>)"
    by (simp add: get_reference_point_def TrajectoryTracker_init_def Let_def py_int_def)
  have "wrap_below (wrap_above (0 - 180)) = - 180"
    by (simp add: wrap_above.simps[of "- 180"] wrap_below.simps[of "- 180"])
  then have "angle_error (fst (calculate_tracking_error (TrajectoryTracker_init [(0, 0, 0)]) 0 0 180)) = - 180"
    by (simp add: calculate_tracking_error_def r)
  then show ?thesis by simp
qed

section \<open>Properties of the selection\<close>









section \<open>Properties of the generation loop\<close>

text \<open>One pass of the loop body either leaves the best-fitness history and the stored
  best as they were (an exception before the bookkeeping), or appends the negated new
  best, which is not below the old one.\<close>

lemma generation_body_history:
  assumes "generation_body rng dec gen i st = (err, st')"
  shows "(err \<noteq> None \<and> st' = st)
         \<or> (\<exists>bf'. rs_best_fitness st' = Some bf'
               \<and> best_fitness_history (rs_ga st') = best_fitness_history (rs_ga st) @ [- bf']
               \<and> (\<forall>bf. rs_best_fitness st = Some bf \<longrightarrow> bf \<le> bf'))"
proof (cases "map_err (evaluate_fitness dec gen (rs_ga st)) (rs_population st)")
  case (Inl e)
  with assms show ?thesis by (auto simp: generation_body_def)
next
  case (Inr fitness)
  show ?thesis
  proof (cases "np_argmax fitness")
    case (Inl e)
    with assms Inr show ?thesis by (auto simp: generation_body_def)
  next
    case idx: (Inr idx)
    define improved where
      "improved = (case rs_best_fitness st of None \<Rightarrow> True | Some bf \<Rightarrow> fitness ! idx > bf)"
    define best_fitness where
      "best_fitness = (if improved then Some (fitness ! idx) else rs_best_fitness st)"
    have "\<exists>bf'. best_fitness = Some bf'"
      by (cases "rs_best_fitness st") (auto simp: best_fitness_def improved_def)
    then obtain bf' where bf': "best_fitness = Some bf'" by blast
    have mono: "\<forall>bf. rs_best_fitness st = Some bf \<longrightarrow> bf \<le> bf'"
      using bf' by (auto simp: best_fitness_def improved_def split: if_splits)
    have "rs_best_fitness st' = Some bf'
          \<and> best_fitness_history (rs_ga st') = best_fitness_history (rs_ga st) @ [- bf']"
      using assms Inr idx bf'
      unfolding generation_body_def Let_def best_fitness_def improved_def
      by (auto split: option.splits sum.splits if_splits)
    with mono show ?thesis by blast
  qed
qed

lemma sorted_rev_last_least:
  "sorted (rev hs) \<Longrightarrow> x \<in> set hs \<Longrightarrow> last hs \<le> (x::real)"
  by (induction hs rule: rev_induct) auto

lemma run_generations_history:
  assumes "run_generations rng dec gen gs st = (err, st')"
    and "best_fitness_history (rs_ga st) = h0 @ hs"
    and "sorted (rev hs)"
    and "case rs_best_fitness st of None \<Rightarrow> hs = [] | Some bf \<Rightarrow> hs \<noteq> [] \<and> last hs = - bf"
  shows "\<exists>hs'. best_fitness_history (rs_ga st') = h0 @ hs' \<and> sorted (rev hs')
           \<and> length hs' \<le> length hs + length gs
           \<and> (err = None \<longrightarrow> length hs' = length hs + length gs)"
  using assms
proof (induction gs arbitrary: st hs)
  case Nil
  then show ?case by auto
next
  case (Cons i gs)
  obtain e1 st1 where b: "generation_body rng dec gen i st = (e1, st1)"
    by (cases "generation_body rng dec gen i st")
  from generation_body_history[OF b] show ?case
  proof
    assume "e1 \<noteq> None \<and> st1 = st"
    then obtain e where e: "e1 = Some e" "st1 = st" by auto
    with Cons.prems(1) b have "err = Some e" "st' = st" by auto
    with Cons.prems show ?thesis by auto
  next
    assume "\<exists>bf'. rs_best_fitness st1 = Some bf'
               \<and> best_fitness_history (rs_ga st1) = best_fitness_history (rs_ga st) @ [- bf']
               \<and> (\<forall>bf. rs_best_fitness st = Some bf \<longrightarrow> bf \<le> bf')"
    then obtain bf' where
      s1: "rs_best_fitness st1 = Some bf'" and
      h1: "best_fitness_history (rs_ga st1) = best_fitness_history (rs_ga st) @ [- bf']" and
      m1: "\<forall>bf. rs_best_fitness st = Some bf \<longrightarrow> bf \<le> bf'"
      by blast
    have hist: "best_fitness_history (rs_ga st1) = h0 @ (hs @ [- bf'])"
      using h1 Cons.prems(2) by simp
    have below: "\<forall>y \<in> set hs. - bf' \<le> y"
    proof
      fix y assume y: "y \<in> set hs"
      then have "hs \<noteq> []" by auto
      with Cons.prems(4) obtain bf where bf: "rs_best_fitness st = Some bf" "last hs = - bf"
        by (cases "rs_best_fitness st") auto
      from sorted_rev_last_least[OF Cons.prems(3) y] bf m1 show "- bf' \<le> y" by auto
    qed
    have srt: "sorted (rev (hs @ [- bf']))"
      using Cons.prems(3) below by simp
    have inv: "case rs_best_fitness st1 of None \<Rightarrow> hs @ [- bf'] = []
               | Some bf \<Rightarrow> hs @ [- bf'] \<noteq> [] \<and> last (hs @ [- bf']) = - bf"
      using s1 by simp
    show ?thesis
    proof (cases e1)
      case (Some e)
      with Cons.prems(1) b have "err = Some e" "st' = st1" by auto
      with hist srt show ?thesis by auto
    next
      case None
      with Cons.prems(1) b have r: "run_generations rng dec gen gs st1 = (err, st')" by simp
      from Cons.IH[OF r hist srt inv] show ?thesis by auto
    qed
  qed
qed

lemma run_history:
  "\<exists>hs. best_fitness_history (snd (run rng dec gen ga g)) = best_fitness_history ga @ hs
     \<and> sorted (rev hs) \<and> length hs \<le> nat (generations ga)
     \<and> (\<forall>r. fst (run rng dec gen ga g) = Inr r \<longrightarrow>
           length hs = nat (generations ga)
           \<and> res_fitness_history (fst r) = best_fitness_history ga @ hs)"
proof (cases "create_population rng ga (nat (population_size ga)) g")
  case (Inl e)
  then have "run rng dec gen ga g = (Inl e, ga)" by (simp add: run_def)
  then show ?thesis by simp
next
  case (Inr p)
  define st0 :: "'a run_state" where
    "st0 = \<lparr>rs_population = fst p, rs_best_individual = None, rs_best_fitness = None,
            rs_ga = ga, rs_rng = snd p\<rparr>"
  obtain err st where
    l: "run_generations rng dec gen [0..<nat (generations ga)] st0 = (err, st)"
    by (cases "run_generations rng dec gen [0..<nat (generations ga)] st0")
  have i1: "best_fitness_history (rs_ga st0) = best_fitness_history ga @ []"
    by (simp add: st0_def)
  have i2: "sorted (rev ([] :: real list))" by simp
  have i3: "case rs_best_fitness st0 of None \<Rightarrow> ([] :: real list) = []
            | Some bf \<Rightarrow> ([] :: real list) \<noteq> [] \<and> last [] = - bf"
    by (simp add: st0_def)
  from run_generations_history[OF l i1 i2 i3] obtain hs where
    hs: "best_fitness_history (rs_ga st) = best_fitness_history ga @ hs" "sorted (rev hs)"
        "length hs \<le> nat (generations ga)"
        "err = None \<longrightarrow> length hs = nat (generations ga)"
    by auto
  have s: "snd (run rng dec gen ga g) = rs_ga st"
    using Inr l[unfolded st0_def] unfolding run_def
    by (auto split: option.splits sum.splits prod.splits)
  have ok: "\<forall>r. fst (run rng dec gen ga g) = Inr r \<longrightarrow>
              err = None \<and> res_fitness_history (fst r) = best_fitness_history (rs_ga st)"
    using Inr l[unfolded st0_def] unfolding run_def
    by (auto split: option.splits sum.splits prod.splits)
  from s hs ok show ?thesis by auto
qed

text \<open>
  C2. A run appends one entry to \<^verbatim>\<open>best_fitness_history\<close> for each generation it
  completes, and these entries, stored as positive cost, never increase from one
  generation to the next. For an optimizer whose history is empty when \<^verbatim>\<open>run\<close> starts,
  as \<^verbatim>\<open>__init__\<close> leaves it, the entries are the whole list. A run that returns has
  appended one entry for each of its generations, and returns that list as
  \<^verbatim>\<open>fitness_history\<close>.
\<close>

theorem run_best_fitness_history_nonincreasing:
  "\<exists>hs. best_fitness_history (snd (run rng dec gen ga g)) = best_fitness_history ga @ hs
     \<and> length hs \<le> nat (generations ga)
     \<and> (\<forall>i. Suc i < length hs \<longrightarrow> hs ! Suc i \<le> hs ! i)
     \<and> (\<forall>r. fst (run rng dec gen ga g) = Inr r \<longrightarrow>
           length hs = nat (generations ga)
           \<and> res_fitness_history (fst r) = best_fitness_history ga @ hs)"
proof -
  from run_history[of rng dec gen ga g] obtain hs where
    h: "best_fitness_history (snd (run rng dec gen ga g)) = best_fitness_history ga @ hs"
       "sorted (rev hs)" "length hs \<le> nat (generations ga)"
       "\<forall>r. fst (run rng dec gen ga g) = Inr r \<longrightarrow>
           length hs = nat (generations ga)
           \<and> res_fitness_history (fst r) = best_fitness_history ga @ hs"
    by blast
  have "\<forall>i. Suc i < length hs \<longrightarrow> hs ! Suc i \<le> hs ! i"
    using sorted_rev_nth_mono[OF h(2)] by auto
  with h show ?thesis by blast
qed

text \<open>The witness: \<open>small_ga\<close> run with the draws of \<open>trace_rng\<close> and the stand-in
  generator. The first population has cost 9, a child of cost 1 appears in the second
  generation and stays the best in the third: the history is \<open>[9, 1, 1]\<close>.\<close>

theorem run_best_fitness_history_nonincreasing_witness:
  "best_fitness_history
     (snd (run trace_rng (decode_individual small_ga) segment_generator small_ga [])) = [9, 1, 1]
   \<and> (\<exists>hs. best_fitness_history
              (snd (run trace_rng (decode_individual small_ga) segment_generator small_ga []))
            = best_fitness_history small_ga @ hs
          \<and> Suc 0 < length hs \<and> hs ! Suc 0 \<le> hs ! 0)"
proof -
  have e: "best_fitness_history
     (snd (run trace_rng (decode_individual small_ga) segment_generator small_ga [])) = [9, 1, 1]"
    by code_simp
  have z: "best_fitness_history small_ga = []" by (simp add: small_ga_def)
  from run_best_fitness_history_nonincreasing
         [of trace_rng "decode_individual small_ga" segment_generator small_ga "[]"]
  obtain hs where
    h: "best_fitness_history
          (snd (run trace_rng (decode_individual small_ga) segment_generator small_ga []))
        = best_fitness_history small_ga @ hs"
       "\<forall>i. Suc i < length hs \<longrightarrow> hs ! Suc i \<le> hs ! i"
    by blast
  from h(1) e z have hs: "hs = [9, 1, 1]" by simp
  then have l: "Suc 0 < length hs" by simp
  with h(2) have "hs ! Suc 0 \<le> hs ! 0" by blast
  with e h(1) l show ?thesis by blast
qed

text \<open>\<^verbatim>\<open>run\<close> never clears the history: on an optimizer that has run before (as in the
  two-phase mode, which runs the same object twice) the entries of the earlier run stay in
  front of the new ones.\<close>

lemma run_keeps_earlier_history:
  "best_fitness_history
     (snd (run trace_rng (decode_individual small_ga) segment_generator
             (small_ga\<lparr>best_fitness_history := [1 / 2]\<rparr>) [])) = [1 / 2, 9, 1, 1]"
  by code_simp

section \<open>Properties of the hybrid controller\<close>

text \<open>A successful \<^verbatim>\<open>optimize_trajectory\<close> sets the flag, the result and the tracker
  together: this is the state in which an optimized path exists.\<close>

lemma optimize_trajectory_sets_all:
  assumes "optimize_trajectory rng gen hs psize gens g = (Inr r, hs')"
  shows "ga_optimized hs' \<and> hy_ga_result hs' = Some (fst r)
         \<and> trajectory_tracker hs' = Some (TrajectoryTracker_init (res_trajectory (fst r)))"
  using assms by (auto simp: optimize_trajectory_def split: sum.splits)

lemma calculate_tracking_control_returns:
  assumes "trajectory_tracker hs = Some t" and "hy_ga_result hs = Some r"
  shows "\<exists>tv ts hs1. calculate_tracking_control hs vehicle
            = (Inr [(''velocidade'', tv), (''angulo_direcao'', ts)], hs1)
          \<and> fuzzy_system hs1 = fuzzy_system hs"
proof -
  obtain te t1 where
    "calculate_tracking_error t (veh_x vehicle) (veh_y vehicle) (veh_angle vehicle) = (te, t1)"
    by (cases "calculate_tracking_error t (veh_x vehicle) (veh_y vehicle) (veh_angle vehicle)")
  then show ?thesis
    using assms by (simp add: calculate_tracking_control_def Let_def)
qed

text \<open>
  C8. Without an optimized path, or with tracking disabled, the controller returns what
  the fuzzy inference returns. With an optimized path (flag, tracker and result set) and
  tracking enabled, when the inference gives a velocity \<open>fv\<close> and a steering \<open>fs\<close>, the
  tracking control returns some velocity \<open>tv\<close> and steering \<open>ts\<close> and the controller
  returns their blend by the band of \<^verbatim>\<open>sensor_front\<close>: below 15,
  \<open>0.7 fv + 0.3 tv\<close> and \<open>0.7 fs + 0.3 ts\<close>; below 30, \<open>0.75 tv + 0.25 fv\<close> and
  \<open>0.8 ts + 0.2 fs\<close>; otherwise \<open>0.95 tv + 0.05 fv\<close> and \<open>0.9 ts + 0.1 fs\<close>.
\<close>

theorem get_fuzzy_control_blend:
  "(\<not> ga_optimized hs \<or> \<not> use_tracking \<longrightarrow>
      fst (get_fuzzy_control hs vehicle use_tracking)
        = fst (infer (fuzzy_system hs) (fuzzy_inputs_of vehicle)))
   \<and> (ga_optimized hs \<and> use_tracking \<and> trajectory_tracker hs = Some t \<and> hy_ga_result hs = Some r
        \<and> fst (infer (fuzzy_system hs) (fuzzy_inputs_of vehicle)) = Inr fuzzy_outputs
        \<and> map_of fuzzy_outputs ''velocidade'' = Some fv
        \<and> map_of fuzzy_outputs ''angulo_direcao'' = Some fs \<longrightarrow>
      (\<exists>tv ts. fst (calculate_tracking_control hs vehicle)
                  = Inr [(''velocidade'', tv), (''angulo_direcao'', ts)]
         \<and> fst (get_fuzzy_control hs vehicle use_tracking) =
             (if sensor_front vehicle < 15 then
                Inr [(''velocidade'', 7 / 10 * fv + 3 / 10 * tv),
                     (''angulo_direcao'', 7 / 10 * fs + 3 / 10 * ts)]
              else if sensor_front vehicle < 30 then
                Inr [(''velocidade'', 75 / 100 * tv + 25 / 100 * fv),
                     (''angulo_direcao'', 8 / 10 * ts + 2 / 10 * fs)]
              else
                Inr [(''velocidade'', 95 / 100 * tv + 5 / 100 * fv),
                     (''angulo_direcao'', 9 / 10 * ts + 1 / 10 * fs)])))"
proof (intro conjI impI)
  assume "\<not> ga_optimized hs \<or> \<not> use_tracking"
  then show "fst (get_fuzzy_control hs vehicle use_tracking)
               = fst (infer (fuzzy_system hs) (fuzzy_inputs_of vehicle))"
    by (auto simp: get_fuzzy_control_def split: prod.splits)
next
  assume a: "ga_optimized hs \<and> use_tracking \<and> trajectory_tracker hs = Some t \<and> hy_ga_result hs = Some r
        \<and> fst (infer (fuzzy_system hs) (fuzzy_inputs_of vehicle)) = Inr fuzzy_outputs
        \<and> map_of fuzzy_outputs ''velocidade'' = Some fv
        \<and> map_of fuzzy_outputs ''angulo_direcao'' = Some fs"
  from a have tr: "trajectory_tracker hs = Some t" and res: "hy_ga_result hs = Some r" by simp_all
  from calculate_tracking_control_returns[OF tr res, of vehicle] obtain tv ts hs1 where
    tc: "calculate_tracking_control hs vehicle
           = (Inr [(''velocidade'', tv), (''angulo_direcao'', ts)], hs1)" and
    fs: "fuzzy_system hs1 = fuzzy_system hs"
    by blast
  obtain fis' where
    inf: "infer (fuzzy_system hs) (fuzzy_inputs_of vehicle) = (Inr fuzzy_outputs, fis')"
    using a by (cases "infer (fuzzy_system hs) (fuzzy_inputs_of vehicle)") auto
  have "fst (get_fuzzy_control hs vehicle use_tracking) =
             (if sensor_front vehicle < 15 then
                Inr [(''velocidade'', 7 / 10 * fv + 3 / 10 * tv),
                     (''angulo_direcao'', 7 / 10 * fs + 3 / 10 * ts)]
              else if sensor_front vehicle < 30 then
                Inr [(''velocidade'', 75 / 100 * tv + 25 / 100 * fv),
                     (''angulo_direcao'', 8 / 10 * ts + 2 / 10 * fs)]
              else
                Inr [(''velocidade'', 95 / 100 * tv + 5 / 100 * fv),
                     (''angulo_direcao'', 9 / 10 * ts + 1 / 10 * fs)])"
    using a tc fs inf
    by (simp add: get_fuzzy_control_def bind_err_def dict_item_def)
  with tc show "\<exists>tv ts. fst (calculate_tracking_control hs vehicle)
                  = Inr [(''velocidade'', tv), (''angulo_direcao'', ts)]
         \<and> fst (get_fuzzy_control hs vehicle use_tracking) =
             (if sensor_front vehicle < 15 then
                Inr [(''velocidade'', 7 / 10 * fv + 3 / 10 * tv),
                     (''angulo_direcao'', 7 / 10 * fs + 3 / 10 * ts)]
              else if sensor_front vehicle < 30 then
                Inr [(''velocidade'', 75 / 100 * tv + 25 / 100 * fv),
                     (''angulo_direcao'', 8 / 10 * ts + 2 / 10 * fs)]
              else
                Inr [(''velocidade'', 95 / 100 * tv + 5 / 100 * fv),
                     (''angulo_direcao'', 9 / 10 * ts + 1 / 10 * fs)])"
    by auto
qed

lemma plain_fis_infers:
  "fst (infer plain_fis (fuzzy_inputs_of (vehicle_at_origin front)))
     = Inr [(''angulo_direcao'', 0), (''velocidade'', 50)]"
  by (simp add: infer_def plain_fis_def add_output_def add_input_def FuzzyInferenceSystem_init_def
        two_point_var_def fuzzy_inputs_of_def vehicle_at_origin_def fuzzify_def np_argmin_def
        bind_err_def infer_aggregated_def initial_aggregated_def defuzzify_output_def
        np_elementwise_def)

lemma tracking_system_control:
  "fst (calculate_tracking_control tracking_system (vehicle_at_origin front))
     = Inr [(''velocidade'',
             if front < 25 then 72 / 125 else if front < 40 then 144 / 125 else 48 / 25),
            (''angulo_direcao'', 0)]"
  by (simp add: calculate_tracking_control_def tracking_system_def parked_system_def
        HybridParkingSystem_init_def point_result_def TrajectoryTracker_init_def
        calculate_tracking_error_def get_reference_point_def Let_def py_int_def
        vehicle_at_origin_def wrap_above.simps[of 0] wrap_below.simps[of 0] np_clip_def)

text \<open>The witness: the fuzzy output is velocity 50 and steering 0. Without a path the
  controller returns it. With the path, at forward distance 10 the tracking velocity is
  0.576 and the blend \<open>0.7 * 50 + 0.3 * 0.576 = 35.1728\<close>; at forward distance 50 the
  tracking velocity is 1.92 and the blend \<open>0.95 * 1.92 + 0.05 * 50 = 4.324\<close>.\<close>

theorem get_fuzzy_control_blend_witness:
  "fst (get_fuzzy_control parked_system (vehicle_at_origin 10) True)
     = Inr [(''angulo_direcao'', 0), (''velocidade'', 50)]
   \<and> fst (get_fuzzy_control tracking_system (vehicle_at_origin 10) True)
       = Inr [(''velocidade'', 21983 / 625), (''angulo_direcao'', 0)]
   \<and> fst (get_fuzzy_control tracking_system (vehicle_at_origin 50) True)
       = Inr [(''velocidade'', 1081 / 250), (''angulo_direcao'', 0)]"
proof -
  have off: "\<not> ga_optimized parked_system"
    by (simp add: parked_system_def HybridParkingSystem_init_def)
  have fp: "fuzzy_system parked_system = plain_fis"
    by (simp add: parked_system_def HybridParkingSystem_init_def)
  have ft: "fuzzy_system tracking_system = plain_fis"
    by (simp add: tracking_system_def parked_system_def HybridParkingSystem_init_def)
  have on: "ga_optimized tracking_system"
    "trajectory_tracker tracking_system = Some (TrajectoryTracker_init (res_trajectory point_result))"
    "hy_ga_result tracking_system = Some point_result"
    by (simp_all add: tracking_system_def)
  have m: "map_of [(''angulo_direcao'', 0 :: real), (''velocidade'', 50)] ''velocidade'' = Some 50"
    "map_of [(''angulo_direcao'', 0 :: real), (''velocidade'', 50)] ''angulo_direcao'' = Some 0"
    by simp_all
  have sf: "\<And>front. sensor_front (vehicle_at_origin front) = front"
    by (simp add: vehicle_at_origin_def)
  have w1: "fst (get_fuzzy_control parked_system (vehicle_at_origin 10) True)
              = Inr [(''angulo_direcao'', 0), (''velocidade'', 50)]"
    using get_fuzzy_control_blend[of parked_system True "vehicle_at_origin 10"] off
    by (simp add: fp plain_fis_infers)
  have b10: "\<exists>tv ts. fst (calculate_tracking_control tracking_system (vehicle_at_origin 10))
                  = Inr [(''velocidade'', tv), (''angulo_direcao'', ts)]
         \<and> fst (get_fuzzy_control tracking_system (vehicle_at_origin 10) True) =
               Inr [(''velocidade'', 7 / 10 * 50 + 3 / 10 * tv),
                    (''angulo_direcao'', 7 / 10 * 0 + 3 / 10 * ts)]"
    using get_fuzzy_control_blend[of tracking_system True "vehicle_at_origin 10"
            "TrajectoryTracker_init (res_trajectory point_result)" point_result
            "[(''angulo_direcao'', 0), (''velocidade'', 50)]" 50 0] on m
    by (simp add: ft plain_fis_infers sf)
  have w2: "fst (get_fuzzy_control tracking_system (vehicle_at_origin 10) True)
              = Inr [(''velocidade'', 21983 / 625), (''angulo_direcao'', 0)]"
    using b10 by (auto simp: tracking_system_control)
  have b50: "\<exists>tv ts. fst (calculate_tracking_control tracking_system (vehicle_at_origin 50))
                  = Inr [(''velocidade'', tv), (''angulo_direcao'', ts)]
         \<and> fst (get_fuzzy_control tracking_system (vehicle_at_origin 50) True) =
               Inr [(''velocidade'', 95 / 100 * tv + 5 / 100 * 50),
                    (''angulo_direcao'', 9 / 10 * ts + 1 / 10 * 0)]"
    using get_fuzzy_control_blend[of tracking_system True "vehicle_at_origin 50"
            "TrajectoryTracker_init (res_trajectory point_result)" point_result
            "[(''angulo_direcao'', 0), (''velocidade'', 50)]" 50 0] on m
    by (simp add: ft plain_fis_infers sf)
  have w3: "fst (get_fuzzy_control tracking_system (vehicle_at_origin 50) True)
              = Inr [(''velocidade'', 1081 / 250), (''angulo_direcao'', 0)]"
    using b50 by (auto simp: tracking_system_control)
  from w1 w2 w3 show ?thesis by blast
qed

end
